theory Spec2Isabelle
  imports Main "HOL-Library.AList"
begin

section \<open>Python values\<close>

text \<open>
  The exceptions that the modelled functions can raise. \<open>BackendError\<close> stands for any
  exception raised inside matplotlib, seaborn or the Groq client, \<open>ValidationError\<close> is
  pydantic's.
\<close>

datatype py_error = TypeError | KeyError | AttributeError | ValidationError | BackendError

text \<open>
  The values \<open>json.loads\<close> produces, which are also the values the suggestion
  dictionaries hold: \<open>None\<close>, booleans, integers, strings, lists and dictionaries. A
  dictionary is an association list read with \<open>map_of\<close>. Floating-point numbers are
  left out.
\<close>

datatype json =
    JNull
  | JBool bool
  | JNum int
  | JStr string
  | JList "json list"
  | JObj "(string \<times> json) list"

definition dict_get :: "(string \<times> json) list \<Rightarrow> string \<Rightarrow> json \<Rightarrow> json" where
  \<comment> \<open>\<open>d.get(k, default)\<close>\<close>
  "dict_get d k dflt = (case map_of d k of None \<Rightarrow> dflt | Some v \<Rightarrow> v)"

subsection \<open>Strings\<close>

text \<open>
  \<open>str.lower\<close>, \<open>str.strip\<close> and the substring test \<open>sub in s\<close>, on ASCII text.
\<close>

definition lower_char :: "char \<Rightarrow> char" where
  "lower_char c =
     (case map_of (zip ''ABCDEFGHIJKLMNOPQRSTUVWXYZ'' ''abcdefghijklmnopqrstuvwxyz'') c of
        None \<Rightarrow> c
      | Some d \<Rightarrow> d)"

definition py_lower :: "string \<Rightarrow> string" where
  "py_lower s = map lower_char s"

definition py_isspace :: "char \<Rightarrow> bool" where
  \<comment> \<open>space, tab, line feed, vertical tab, form feed, carriage return, and the four separators\<close>
  "py_isspace c = (c \<in> set [CHR 0x20, CHR 0x09, CHR 0x0A, CHR 0x0B, CHR 0x0C, CHR 0x0D,
                              CHR 0x1C, CHR 0x1D, CHR 0x1E, CHR 0x1F])"

definition py_strip :: "string \<Rightarrow> string" where
  "py_strip s = rev (dropWhile py_isspace (rev (dropWhile py_isspace s)))"

fun starts_with :: "string \<Rightarrow> string \<Rightarrow> bool" where
  "starts_with [] s = True"
| "starts_with (p # ps) [] = False"
| "starts_with (p # ps) (c # cs) = (p = c \<and> starts_with ps cs)"

fun py_contains :: "string \<Rightarrow> string \<Rightarrow> bool" where
  \<comment> \<open>\<open>py_contains sub s\<close> is \<open>sub in s\<close>\<close>
  "py_contains sub [] = (sub = [])"
| "py_contains sub (c # cs) = (starts_with sub (c # cs) \<or> py_contains sub cs)"

subsection \<open>Text of a value, truth of a value\<close>

fun show_nat :: "nat \<Rightarrow> string" where
  "show_nat n =
     (if n < 10 then [''0123456789'' ! n]
      else show_nat (n div 10) @ [''0123456789'' ! (n mod 10)])"

declare show_nat.simps [simp del]

definition show_int :: "int \<Rightarrow> string" where
  "show_int i = (if i < 0 then ''-'' @ show_nat (nat (- i)) else show_nat (nat i))"

fun join :: "string \<Rightarrow> string list \<Rightarrow> string" where
  "join sep [] = []"
| "join sep [s] = s"
| "join sep (s # t # rest) = s @ sep @ join sep (t # rest)"

text \<open>
  \<open>repr\<close> of a value. A string is put between single quotes without the escapes
  Python adds for quotes, backslashes and control characters.
\<close>

fun py_repr :: "json \<Rightarrow> string" where
  "py_repr JNull = ''None''"
| "py_repr (JBool b) = (if b then ''True'' else ''False'')"
| "py_repr (JNum n) = show_int n"
| "py_repr (JStr s) = [CHR 0x27] @ s @ [CHR 0x27]"
| "py_repr (JList vs) = ''['' @ join '', '' (map py_repr vs) @ '']''"
| "py_repr (JObj d) =
     ''{'' @ join '', '' (map (\<lambda>kv. [CHR 0x27] @ fst kv @ [CHR 0x27] @ '': '' @ py_repr (snd kv)) d) @ ''}''"

definition py_str :: "json \<Rightarrow> string" where
  \<comment> \<open>\<open>str(v)\<close>: a string is itself, any other value its \<open>repr\<close>\<close>
  "py_str v = (case v of JStr s \<Rightarrow> s | _ \<Rightarrow> py_repr v)"

definition py_truthy :: "json \<Rightarrow> bool" where
  \<comment> \<open>the truth value of \<open>v\<close> in \<open>if v\<close> and \<open>not v\<close>\<close>
  "py_truthy v =
     (case v of
        JNull \<Rightarrow> False
      | JBool b \<Rightarrow> b
      | JNum n \<Rightarrow> n \<noteq> 0
      | JStr s \<Rightarrow> s \<noteq> []
      | JList vs \<Rightarrow> vs \<noteq> []
      | JObj d \<Rightarrow> d \<noteq> [])"

section \<open>Tables\<close>

text \<open>
  A pandas \<open>DataFrame\<close> is an ordered list of columns; a column has its label, its
  dtype and its cells. The dtypes are those the services name or can meet after
  \<open>read_excel\<close> and \<open>to_datetime\<close>: integer, float and boolean columns, free-form
  \<open>object\<close> columns, categoricals, and naive or UTC timestamps. A cell is missing
  (\<open>NaN\<close>, \<open>NaT\<close>, \<open>None\<close>) or holds a number, a text or a timestamp; numbers are
  kept as integers and booleans as 0 and 1. Column labels are unique, as \<open>read_excel\<close>
  makes them, so \<open>df[col]\<close> is the one column with that label.
\<close>

datatype dtype = Int64 | Float64 | Bool | Object | Category | Datetime64 | Datetime64_UTC

datatype cell = NA | NumV int | StrV string | TimeV int

record column =
  col_name :: string
  col_dtype :: dtype
  col_cells :: "cell list"

type_synonym dataframe = "column list"

definition is_numeric_dtype :: "dtype \<Rightarrow> bool" where
  \<comment> \<open>\<open>pd.api.types.is_numeric_dtype\<close>: numbers and booleans\<close>
  "is_numeric_dtype t = (t \<in> set [Int64, Float64, Bool])"

definition issubdtype_datetime64 :: "dtype \<Rightarrow> py_error + bool" where
  \<comment> \<open>\<open>np.issubdtype(t, np.datetime64)\<close>: numpy cannot interpret a pandas extension dtype\<close>
  "issubdtype_datetime64 t =
     (if t = Category \<or> t = Datetime64_UTC then Inl TypeError else Inr (t = Datetime64))"

definition issubdtype_number :: "dtype \<Rightarrow> py_error + bool" where
  \<comment> \<open>\<open>np.issubdtype(t, np.number)\<close>\<close>
  "issubdtype_number t =
     (if t = Category \<or> t = Datetime64_UTC then Inl TypeError else Inr (t = Int64 \<or> t = Float64))"

definition series_count :: "column \<Rightarrow> nat" where
  \<comment> \<open>\<open>series.count()\<close>: the cells that are not missing\<close>
  "series_count c = length (filter (\<lambda>v. v \<noteq> NA) (col_cells c))"

definition series_nunique :: "column \<Rightarrow> nat" where
  \<comment> \<open>\<open>series.nunique()\<close>: the distinct values among them\<close>
  "series_nunique c = length (remdups (filter (\<lambda>v. v \<noteq> NA) (col_cells c)))"

section \<open>Type inference (services/manual\_viz\_service.py)\<close>

definition name_has_date_or_time :: "string \<Rightarrow> bool" where
  \<comment> \<open>\<open>any(elem in col.lower() for elem in ['date', 'time'])\<close>\<close>
  "name_has_date_or_time col = list_ex (\<lambda>elem. py_contains elem (py_lower col)) [''date'', ''time'']"

definition column_datatype :: "column \<Rightarrow> py_error + string" where
  \<comment> \<open>the body of the loop of \<open>get_column_datatype\<close>, for one column\<close>
  "column_datatype series =
     (if is_numeric_dtype (col_dtype series) then Inr ''numerical''
      else case issubdtype_datetime64 (col_dtype series) of
        Inl e \<Rightarrow> Inl e
      | Inr is_dt \<Rightarrow>
          if is_dt \<or> name_has_date_or_time (col_name series) then Inr ''datetime''
          else if series_count series = series_nunique series then
            (if py_contains ''id'' (py_lower (col_name series)) then Inr ''primary_key''
             else Inr ''distinct_categorical'')
          else
            (if py_contains ''id'' (py_lower (col_name series)) then Inr ''foreign_key''
             else Inr ''categorical''))"

fun get_column_datatype_loop ::
  "column list \<Rightarrow> (string \<times> string) list \<Rightarrow> py_error + (string \<times> string) list" where
  "get_column_datatype_loop [] datatype = Inr datatype"
| "get_column_datatype_loop (series # rest) datatype =
     (case column_datatype series of
        Inl e \<Rightarrow> Inl e
      | Inr kind \<Rightarrow> get_column_datatype_loop rest (AList.update (col_name series) kind datatype))"

definition get_column_datatype :: "dataframe \<Rightarrow> py_error + (string \<times> string) list" where
  "get_column_datatype df = get_column_datatype_loop df []"

section \<open>The statistical summary (services/stats\_service.py)\<close>

text \<open>
  The entry of one column in \<open>summary\<close>: its \<open>type\<close>, its \<open>count\<close>, and for a column with
  repeated values \<open>unique\<close> and \<open>freq_num\<close>, the count of the most frequent value. The
  floating-point keys \<open>mean\<close>, \<open>min\<close>, \<open>max\<close> and the text of the most frequent value
  are not modelled.
\<close>

record col_summary =
  stype :: string
  scount :: nat
  sunique :: "nat option"
  sfreq_num :: "nat option"

definition value_counts_max :: "column \<Rightarrow> nat" where
  \<comment> \<open>\<open>series.value_counts().max()\<close> on a column with at least one value\<close>
  "value_counts_max c =
     (let vs = filter (\<lambda>v. v \<noteq> NA) (col_cells c)
      in fold max (map (\<lambda>v. count_list vs v) (remdups vs)) 0)"

definition column_summary :: "column \<Rightarrow> col_summary" where
  "column_summary series =
     (if is_numeric_dtype (col_dtype series) then
        \<lparr>stype = ''numerical'', scount = series_count series, sunique = None, sfreq_num = None\<rparr>
      else
        let count = series_count series; unique = series_nunique series in
        if count = unique then
          (if py_contains ''id'' (py_lower (col_name series)) then
             \<lparr>stype = ''primary_key'', scount = count, sunique = None, sfreq_num = None\<rparr>
           else
             \<lparr>stype = ''distinct_categorical'', scount = count, sunique = None, sfreq_num = None\<rparr>)
        else
          let cat =
            (if py_contains ''id'' (py_lower (col_name series)) then ''foreign_key''
             else if py_contains ''date'' (py_lower (col_name series))
                     \<or> py_contains ''time'' (py_lower (col_name series)) then ''datetime''
             else ''categorical'')
          in \<lparr>stype = cat, scount = count, sunique = Some unique,
               sfreq_num = Some (value_counts_max series)\<rparr>)"

definition summary_of :: "dataframe \<Rightarrow> (string \<times> col_summary) list" where
  \<comment> \<open>the \<open>summary\<close> dictionary that \<open>get_statistical_summary\<close> builds for the sheet\<close>
  "summary_of df = fold (\<lambda>series summary. AList.update (col_name series) (column_summary series) summary) df []"

section \<open>Rule-based suggestions (services/manual\_viz\_service.py)\<close>

text \<open>A suggestion is a dictionary with the keys \<open>chart_type\<close>, \<open>x\<close>, \<open>y\<close> and \<open>description\<close>.\<close>

definition suggestion :: "string \<Rightarrow> json \<Rightarrow> json \<Rightarrow> json \<Rightarrow> json" where
  "suggestion ct xv yv desc =
     JObj [(''chart_type'', JStr ct), (''x'', xv), (''y'', yv), (''description'', desc)]"

definition lookup_kind :: "(string \<times> string) list \<Rightarrow> string \<Rightarrow> py_error + string" where
  \<comment> \<open>\<open>datatype[col]\<close>\<close>
  "lookup_kind datatype col = (case map_of datatype col of None \<Rightarrow> Inl KeyError | Some k \<Rightarrow> Inr k)"

fun column_suggestions :: "(string \<times> string) list \<Rightarrow> string list \<Rightarrow> py_error + json list" where
  \<comment> \<open>the first loop: a bar chart per categorical column, a histogram per numerical column\<close>
  "column_suggestions datatype [] = Inr []"
| "column_suggestions datatype (col # rest) =
     (case lookup_kind datatype col of
        Inl e \<Rightarrow> Inl e
      | Inr kind \<Rightarrow>
          (case column_suggestions datatype rest of
             Inl e \<Rightarrow> Inl e
           | Inr later \<Rightarrow>
               if kind = ''categorical'' then
                 Inr (suggestion ''bar'' (JStr col) JNull (JStr (''Count of '' @ col)) # later)
               else if kind = ''numerical'' then
                 Inr (suggestion ''histogram'' (JStr col) JNull (JStr (''Distribution of '' @ col)) # later)
               else Inr later))"

definition scatter_suggestions :: "string list \<Rightarrow> json list" where
  \<comment> \<open>\<open>for i in range(len(numerical)-1): for j in range(i+1, len(numerical))\<close>\<close>
  "scatter_suggestions numerical =
     concat (map (\<lambda>i. map (\<lambda>j.
         suggestion ''scatter'' (JStr (numerical ! i)) (JStr (numerical ! j))
           (JStr (''Relationship between '' @ numerical ! i @ '' and '' @ numerical ! j)))
         [i + 1 ..< length numerical])
       [0 ..< length numerical - 1])"

definition line_suggestions :: "string list \<Rightarrow> string list \<Rightarrow> json list" where
  \<comment> \<open>\<open>date[0]\<close> is read only when \<open>len(date) == 1\<close>\<close>
  "line_suggestions date numerical =
     (case date of
        [d] \<Rightarrow> map (\<lambda>item. suggestion ''line'' (JStr d) (JStr item)
                   (JStr (''Trend of '' @ item @ '' over date''))) numerical
      | _ \<Rightarrow> [])"

definition generate_manual_suggestions :: "dataframe \<Rightarrow> py_error + json list" where
  "generate_manual_suggestions df =
     (case get_column_datatype df of
        Inl e \<Rightarrow> Inl e
      | Inr datatype \<Rightarrow>
          (case column_suggestions datatype (map col_name df) of
             Inl e \<Rightarrow> Inl e
           | Inr manual_sug \<Rightarrow>
               let numerical = map fst (filter (\<lambda>kv. snd kv = ''numerical'') datatype);
                   date = map fst (filter (\<lambda>kv. snd kv = ''datetime'') datatype)
               in Inr (manual_sug @ scatter_suggestions numerical @ line_suggestions date numerical)))"

section \<open>The suggestion validator (both services)\<close>

definition cols_contains :: "string list \<Rightarrow> json \<Rightarrow> py_error + bool" where
  \<comment> \<open>\<open>v in cols\<close> for \<open>cols = set(df.columns)\<close>: a list or a dictionary cannot be hashed;
      the labels are strings, so no other value is among them\<close>
  "cols_contains cols v =
     (case v of
        JStr s \<Rightarrow> Inr (s \<in> set cols)
      | JList vs \<Rightarrow> Inl TypeError
      | JObj d \<Rightarrow> Inl TypeError
      | _ \<Rightarrow> Inr False)"

text \<open>
  What one pass of the loop body does with an item: \<open>continue\<close>, raise, or append the
  cleaned dictionary.
\<close>

datatype verdict = Continue | Raise py_error | Append string json json json

definition clean_item :: "string list \<Rightarrow> (string \<times> json \<times> json) list \<Rightarrow> json \<Rightarrow> verdict" where
  "clean_item cols seen item =
     (case item of
        JObj d \<Rightarrow>
          (let ct = py_lower (py_strip (py_str (dict_get d ''chart_type'' (JStr []))));
               xv = dict_get d ''x'' JNull;
               yv = dict_get d ''y'' JNull;
               desc = dict_get d ''description'' (JStr [])
           in if ct = [] \<or> xv = JNull then Continue
              else case cols_contains cols xv of
                Inl e \<Rightarrow> Raise e
              | Inr x_in \<Rightarrow>
                  if \<not> x_in then Continue
                  else case (if yv = JNull then Inr True else cols_contains cols yv) of
                    Inl e \<Rightarrow> Raise e
                  | Inr y_ok \<Rightarrow>
                      if \<not> y_ok then Continue
                      else if ct \<in> set [''scatter'', ''line''] \<and> yv = JNull then Continue
                      else if ct \<notin> set [''histogram'', ''scatter'', ''bar'', ''countplot'', ''line'']
                        then Continue
                      else if (ct, xv, yv) \<in> set seen then Continue
                      else Append ct xv yv desc)
      | _ \<Rightarrow> Continue)"

fun clean_loop ::
  "string list \<Rightarrow> nat option \<Rightarrow> json list \<Rightarrow> (string \<times> json \<times> json) list \<Rightarrow> json list
   \<Rightarrow> py_error + json list" where
  "clean_loop cols cap [] seen cleaned = Inr cleaned"
| "clean_loop cols cap (item # rest) seen cleaned =
     (case clean_item cols seen item of
        Continue \<Rightarrow> clean_loop cols cap rest seen cleaned
      | Raise e \<Rightarrow> Inl e
      | Append ct xv yv desc \<Rightarrow>
          let cleaned' = cleaned @ [suggestion ct xv yv desc] in
          if (case cap of None \<Rightarrow> False | Some max_per_sheet \<Rightarrow> length cleaned' \<ge> max_per_sheet)
          then Inr cleaned'
          else clean_loop cols cap rest ((ct, xv, yv) # seen) cleaned')"

definition hashable :: "json \<Rightarrow> bool" where
  \<comment> \<open>the values \<open>hash\<close> accepts: everything but lists and dictionaries\<close>
  "hashable v = (case v of JList vs \<Rightarrow> False | JObj d \<Rightarrow> False | _ \<Rightarrow> True)"

definition axes_hashable :: "json \<Rightarrow> bool" where
  \<comment> \<open>an item whose \<open>x\<close> and \<open>y\<close>, if it is a dictionary, can be looked up in a set\<close>
  "axes_hashable item =
     (case item of
        JObj d \<Rightarrow> hashable (dict_get d ''x'' JNull) \<and> hashable (dict_get d ''y'' JNull)
      | _ \<Rightarrow> True)"

definition clean_and_validate :: "nat option \<Rightarrow> dataframe \<Rightarrow> json \<Rightarrow> py_error + json list" where
  \<comment> \<open>the common body; \<open>cap\<close> is \<open>max_per_sheet\<close> where the service has it\<close>
  "clean_and_validate cap df raw_suggestions =
     (case raw_suggestions of
        JList items \<Rightarrow>
          if \<not> py_truthy raw_suggestions then Inr []
          else clean_loop (map col_name df) cap items [] []
      | _ \<Rightarrow> Inr [])"

definition clean_and_validate_suggestions :: "dataframe \<Rightarrow> json \<Rightarrow> nat \<Rightarrow> py_error + json list" where
  \<comment> \<open>services/viz\_service.py; the callers leave \<open>max_per_sheet\<close> at its default 12\<close>
  "clean_and_validate_suggestions df raw_suggestions max_per_sheet =
     clean_and_validate (Some max_per_sheet) df raw_suggestions"

definition manual_clean_and_validate_suggestions :: "dataframe \<Rightarrow> json \<Rightarrow> py_error + json list" where
  \<comment> \<open>services/manual\_viz\_service.py: the same loop without the cap\<close>
  "manual_clean_and_validate_suggestions df raw_suggestions = clean_and_validate None df raw_suggestions"

text \<open>Reading a suggestion back: \<open>s.get(k)\<close>, and the triple the validator deduplicates on.\<close>

definition sug_get :: "json \<Rightarrow> string \<Rightarrow> json" where
  "sug_get s k = (case s of JObj d \<Rightarrow> dict_get d k JNull | _ \<Rightarrow> JNull)"

definition sug_key :: "json \<Rightarrow> json \<times> json \<times> json" where
  "sug_key s = (sug_get s ''chart_type'', sug_get s ''x'', sug_get s ''y'')"

definition suggestion_ok :: "string list \<Rightarrow> json \<Rightarrow> bool" where
  \<comment> \<open>a recognised chart type, \<open>x\<close> a column, \<open>y\<close> a column or \<open>None\<close>, and never \<open>None\<close>
      on a scatter or line chart\<close>
  "suggestion_ok cols s =
     (case sug_get s ''chart_type'' of
        JStr ct \<Rightarrow>
          ct \<in> set [''histogram'', ''scatter'', ''bar'', ''countplot'', ''line'']
          \<and> (case sug_get s ''x'' of JStr xn \<Rightarrow> xn \<in> set cols | _ \<Rightarrow> False)
          \<and> (case sug_get s ''y'' of
               JNull \<Rightarrow> ct \<notin> set [''scatter'', ''line'']
             | JStr yn \<Rightarrow> yn \<in> set cols
             | _ \<Rightarrow> False)
      | _ \<Rightarrow> False)"

text \<open>The line proposals of a list, and the labels of the columns of one kind, in table order.\<close>

definition is_line :: "json \<Rightarrow> bool" where
  "is_line s = (sug_get s ''chart_type'' = JStr ''line'')"

definition columns_of_kind :: "string \<Rightarrow> dataframe \<Rightarrow> string list" where
  "columns_of_kind kind df = map col_name (filter (\<lambda>series. column_datatype series = Inr kind) df)"

section \<open>The world outside the services\<close>

text \<open>
  What the services call and do not define: \<open>pd.to_datetime\<close> on a column (the parsed
  column, or an exception), the Groq client (absent without an API key; called with the
  schema of the table, it raises or answers, and the answer is the text of its first
  choice), \<open>json.loads\<close> (\<open>None\<close> where it raises), \<open>strftime\<close> on a timestamp,
  pydantic's validation of a string field, and matplotlib and seaborn. A seaborn call is
  named by the plot it is asked to draw; it draws or raises, and \<open>savefig\<close> gives the
  PNG bytes of that plot or raises. Nothing is assumed about any of them.
\<close>

datatype plot =
    CountPlot dataframe json
  | HistPlot "cell list"
  | ScatterPlot dataframe json json
  | BarPlot dataframe json json
  | LinePlot dataframe json json

record env =
  to_datetime :: "column \<Rightarrow> py_error + column"
  client :: "((string \<times> string) list \<Rightarrow> py_error + string) option"
  json_loads :: "string \<Rightarrow> json option"
  strftime :: "int \<Rightarrow> string"
  str_validator :: "json \<Rightarrow> py_error + string"
  plt_figure :: "py_error option"
  sns_draw :: "plot \<Rightarrow> py_error option"
  plt_tight_layout :: "py_error option"
  plt_savefig :: "plot \<Rightarrow> py_error + string"
  plt_close :: "py_error option"
  plt_close_on_error :: "py_error option"

section \<open>Tables in memory and the date coercion (both services)\<close>

text \<open>
  The tables live in a store: an address is an index into the list of all tables
  allocated so far. \<open>df.copy()\<close> allocates a new table; \<open>df[col] = parsed\<close> overwrites
  one column of the table at an address. The loop of the coercion is written for tables
  with unique labels, where \<open>df[col]\<close> is the column at the position of \<open>col\<close>; on a
  repeated label \<open>df[col]\<close> is a table and \<open>df[col].dtype\<close> raises, which the loop
  below does not model.
\<close>

type_synonym heap = "dataframe list"

definition df_copy :: "heap \<Rightarrow> nat \<Rightarrow> heap \<times> nat" where
  "df_copy h df = (h @ [h ! df], length h)"

definition set_column :: "heap \<Rightarrow> nat \<Rightarrow> nat \<Rightarrow> column \<Rightarrow> heap" where
  \<comment> \<open>\<open>df[col] = parsed\<close> for the \<open>i\<close>-th label \<open>col\<close>: the label stays, dtype and cells are
      those of \<open>parsed\<close>\<close>
  "set_column h df i parsed =
     h[df := (h ! df)[i := ((h ! df) ! i)\<lparr>col_dtype := col_dtype parsed, col_cells := col_cells parsed\<rparr>]]"

definition mostly_dates :: "column \<Rightarrow> column \<Rightarrow> bool" where
  \<comment> \<open>\<open>non_null > 0 and parsed_non_null / non_null >= 0.7\<close>, in integers\<close>
  "mostly_dates series parsed =
     (let non_null = series_count series; parsed_non_null = series_count parsed
      in non_null > 0 \<and> 10 * parsed_non_null \<ge> 7 * non_null)"

fun prepare_loop :: "env \<Rightarrow> heap \<Rightarrow> nat \<Rightarrow> nat list \<Rightarrow> heap" where
  \<comment> \<open>\<open>for col in df.columns\<close>, by position\<close>
  "prepare_loop E h df [] = h"
| "prepare_loop E h df (i # rest) =
     (let series = (h ! df) ! i in
      if col_dtype series = Object then
        (case to_datetime E series of
           Inl e \<Rightarrow> prepare_loop E h df rest
         | Inr parsed \<Rightarrow>
             if mostly_dates series parsed then prepare_loop E (set_column h df i parsed) df rest
             else prepare_loop E h df rest)
      else prepare_loop E h df rest)"

definition prepare_df_for_viz :: "env \<Rightarrow> heap \<Rightarrow> nat \<Rightarrow> heap \<times> nat" where
  "prepare_df_for_viz E h df =
     (let (h1, copy) = df_copy h df
      in (prepare_loop E h1 copy [0 ..< length (h1 ! copy)], copy))"

text \<open>The table that the coercion leaves in the copy, column by column.\<close>

definition prepare_column :: "env \<Rightarrow> column \<Rightarrow> column" where
  "prepare_column E series =
     (if col_dtype series = Object then
        (case to_datetime E series of
           Inl e \<Rightarrow> series
         | Inr parsed \<Rightarrow>
             if mostly_dates series parsed
             then series\<lparr>col_dtype := col_dtype parsed, col_cells := col_cells parsed\<rparr>
             else series)
      else series)"

section \<open>Oracle-assisted suggestions (services/viz\_service.py)\<close>

definition dtype_str :: "dtype \<Rightarrow> string" where
  \<comment> \<open>\<open>str(df[col].dtype)\<close>\<close>
  "dtype_str t =
     (case t of
        Int64 \<Rightarrow> ''int64''
      | Float64 \<Rightarrow> ''float64''
      | Bool \<Rightarrow> ''bool''
      | Object \<Rightarrow> ''object''
      | Category \<Rightarrow> ''category''
      | Datetime64 \<Rightarrow> ''datetime64[ns]''
      | Datetime64_UTC \<Rightarrow> ''datetime64[ns, UTC]'')"

definition schema :: "dataframe \<Rightarrow> (string \<times> string) list" where
  "schema df = map (\<lambda>series. (col_name series, dtype_str (col_dtype series))) df"

fun py_find :: "char \<Rightarrow> string \<Rightarrow> nat option" where
  \<comment> \<open>\<open>s.find(ch)\<close>; \<open>None\<close> stands for \<open>-1\<close>\<close>
  "py_find ch [] = None"
| "py_find ch (c # cs) = (if c = ch then Some 0 else map_option Suc (py_find ch cs))"

definition py_rfind :: "char \<Rightarrow> string \<Rightarrow> nat option" where
  "py_rfind ch s = map_option (\<lambda>i. length s - 1 - i) (py_find ch (rev s))"

definition py_slice :: "string \<Rightarrow> nat \<Rightarrow> nat \<Rightarrow> string" where
  \<comment> \<open>\<open>s[start:stop]\<close>; empty when \<open>stop \<le> start\<close>\<close>
  "py_slice s start stop = take (stop - start) (drop start s)"

definition loads_between :: "env \<Rightarrow> char \<Rightarrow> char \<Rightarrow> string \<Rightarrow> json option" where
  \<comment> \<open>\<open>start = raw.find(l); end = raw.rfind(r)\<close>, and \<open>json.loads(raw[start : end + 1])\<close>
      inside its \<open>try\<close> when neither is \<open>-1\<close>\<close>
  "loads_between E l r raw =
     (case (py_find l raw, py_rfind r raw) of
        (Some start, Some end) \<Rightarrow> json_loads E (py_slice raw start (end + 1))
      | _ \<Rightarrow> None)"

definition parse_response :: "env \<Rightarrow> string \<Rightarrow> json" where
  \<comment> \<open>the JSON parsing at the end of \<open>ask_llm_for_visualizations\<close>\<close>
  "parse_response E raw =
     (case json_loads E raw of
        Some v \<Rightarrow> v
      | None \<Rightarrow>
          (case loads_between E CHR ''['' CHR '']'' raw of
             Some v \<Rightarrow> v
           | None \<Rightarrow>
               (case loads_between E CHR ''{'' CHR ''}'' raw of
                  Some one_obj \<Rightarrow> JList [one_obj]
                | None \<Rightarrow> JNull)))"

definition ask_llm_for_visualizations :: "env \<Rightarrow> dataframe \<Rightarrow> json" where
  "ask_llm_for_visualizations E df =
     (case client E of
        None \<Rightarrow> JNull
      | Some create \<Rightarrow>
          (case create (schema df) of
             Inl e \<Rightarrow> JNull
           | Inr raw \<Rightarrow> parse_response E raw))"

definition select_dtypes :: "dtype list \<Rightarrow> dataframe \<Rightarrow> string list" where
  \<comment> \<open>\<open>df.select_dtypes(include=...).columns.tolist()\<close>\<close>
  "select_dtypes include df = map col_name (filter (\<lambda>series. col_dtype series \<in> set include) df)"

definition fallback_suggestions :: "dataframe \<Rightarrow> json list" where
  "fallback_suggestions df =
     (let numeric_cols = select_dtypes [Int64, Float64] df;
          cat_cols = select_dtypes [Object, Category] df;
          date_cols = select_dtypes [Datetime64, Datetime64_UTC] df
      in (if date_cols \<noteq> [] \<and> numeric_cols \<noteq> [] then
            [suggestion ''line'' (JStr (hd date_cols)) (JStr (hd numeric_cols))
               (JStr (''Trend of '' @ [CHR 0x27] @ hd numeric_cols @ [CHR 0x27] @ '' over time by ''
                      @ [CHR 0x27] @ hd date_cols @ [CHR 0x27] @ ''.''))]
          else if numeric_cols \<noteq> [] then
            [suggestion ''histogram'' (JStr (hd numeric_cols)) JNull
               (JStr (''Distribution of numeric column '' @ [CHR 0x27] @ hd numeric_cols @ [CHR 0x27] @ ''.''))]
          else [])
         @ (if cat_cols \<noteq> [] then
              [suggestion ''countplot'' (JStr (hd cat_cols)) JNull
                 (JStr (''Category counts for '' @ [CHR 0x27] @ hd cat_cols @ [CHR 0x27] @ ''.''))]
            else []))"

text \<open>
  The fallback as the specification words it: a line chart of the first numeric column
  over the first datetime column if both exist, otherwise a histogram of the first numeric
  column, and then a count plot of the first text-like column if there is one.
\<close>

definition first_of :: "dtype list \<Rightarrow> dataframe \<Rightarrow> string option" where
  "first_of ts df = map_option col_name (find (\<lambda>series. col_dtype series \<in> set ts) df)"

definition described_fallback :: "dataframe \<Rightarrow> json list" where
  "described_fallback df =
     (case first_of [Int64, Float64] df of
        None \<Rightarrow> []
      | Some n \<Rightarrow>
          (case first_of [Datetime64, Datetime64_UTC] df of
             Some d \<Rightarrow>
               [suggestion ''line'' (JStr d) (JStr n)
                  (JStr (''Trend of '' @ [CHR 0x27] @ n @ [CHR 0x27] @ '' over time by ''
                         @ [CHR 0x27] @ d @ [CHR 0x27] @ ''.''))]
           | None \<Rightarrow>
               [suggestion ''histogram'' (JStr n) JNull
                  (JStr (''Distribution of numeric column '' @ [CHR 0x27] @ n @ [CHR 0x27] @ ''.''))]))
     @ (case first_of [Object, Category] df of
          None \<Rightarrow> []
        | Some c \<Rightarrow>
            [suggestion ''countplot'' (JStr c) JNull
               (JStr (''Category counts for '' @ [CHR 0x27] @ c @ [CHR 0x27] @ ''.''))])"

definition get_viz_suggestions_for_df :: "env \<Rightarrow> heap \<Rightarrow> nat \<Rightarrow> heap \<times> (py_error + json list)" where
  "get_viz_suggestions_for_df E h df =
     (let (h1, df_prepared) = prepare_df_for_viz E h df;
          asked = ask_llm_for_visualizations E (h1 ! df_prepared);
          raw_suggestions =
            (if \<not> py_truthy asked then JList (fallback_suggestions (h1 ! df_prepared)) else asked)
      in (h1,
          case clean_and_validate_suggestions (h1 ! df_prepared) raw_suggestions 12 of
            Inl e \<Rightarrow> Inl e
          | Inr cleaned \<Rightarrow>
              if cleaned = [] then Inr (fallback_suggestions (h1 ! df_prepared)) else Inr cleaned))"

definition manual_get_viz_suggestions_for_df ::
  "env \<Rightarrow> heap \<Rightarrow> nat \<Rightarrow> heap \<times> (py_error + json list)" where
  \<comment> \<open>services/manual\_viz\_service.py\<close>
  "manual_get_viz_suggestions_for_df E h df =
     (let (h1, df_prepared) = prepare_df_for_viz E h df
      in (h1,
          case generate_manual_suggestions (h1 ! df_prepared) of
            Inl e \<Rightarrow> Inl e
          | Inr raw_suggestions \<Rightarrow>
              manual_clean_and_validate_suggestions (h1 ! df_prepared) (JList raw_suggestions)))"

section \<open>The render cache (services/viz\_cache.py)\<close>

text \<open>
  A rendered chart, \<open>VizConfig\<close> of models/common\_models.py (its fields carry the
  prefix \<open>viz_\<close> here). The cached value of a
  session is a dictionary from sheet name to the list of its charts, kept as an
  association list in insertion order.
\<close>

record VizConfig =
  viz_chart_type :: string
  viz_x :: "string option"
  viz_y :: "string option"
  viz_hue :: "string option"
  viz_description :: string
  viz_image_base64 :: "string option"

type_synonym viz_result = "(string \<times> VizConfig list) list"

text \<open>The two module-level dictionaries \<open>_VIZ_CACHE_MANUAL\<close> and \<open>_VIZ_CACHE_AI\<close>.\<close>

record viz_cache =
  VIZ_CACHE_MANUAL :: "string \<rightharpoonup> viz_result"
  VIZ_CACHE_AI :: "string \<rightharpoonup> viz_result"

definition get_cached_visualizations :: "viz_cache \<Rightarrow> string \<Rightarrow> string \<Rightarrow> viz_result option" where
  \<comment> \<open>Falling off the end of the \<open>if\<close>/\<open>elif\<close> returns \<open>None\<close>, as \<open>dict.get\<close> does on a miss.\<close>
  "get_cached_visualizations c session_id mode =
     (if mode = ''manual'' then VIZ_CACHE_MANUAL c session_id
      else if mode = ''ai'' then VIZ_CACHE_AI c session_id
      else None)"

definition store_visualizations :: "viz_cache \<Rightarrow> string \<Rightarrow> viz_result \<Rightarrow> string \<Rightarrow> viz_cache" where
  "store_visualizations c session_id data mode =
     (if mode = ''manual'' then c\<lparr>VIZ_CACHE_MANUAL := (VIZ_CACHE_MANUAL c)(session_id \<mapsto> data)\<rparr>
      else if mode = ''ai'' then c\<lparr>VIZ_CACHE_AI := (VIZ_CACHE_AI c)(session_id \<mapsto> data)\<rparr>
      else c)"

section \<open>The chart renderer (both services)\<close>

definition b64_alphabet :: string where
  "b64_alphabet = ''ABCDEFGHIJKLMNOPQRSTUVWXYZabcdefghijklmnopqrstuvwxyz0123456789+/''"

definition b64_char :: "int \<Rightarrow> char" where
  "b64_char n = b64_alphabet ! nat n"

fun b64encode :: "string \<Rightarrow> string" where
  \<comment> \<open>\<open>base64.b64encode(data).decode("utf-8")\<close> on the bytes \<open>data\<close>\<close>
  "b64encode [] = []"
| "b64encode [a] =
     (let n = (of_char a :: int)
      in [b64_char (n div 4), b64_char (n mod 4 * 16), CHR ''='', CHR ''=''])"
| "b64encode [a, b] =
     (let n = (of_char a :: int) * 256 + of_char b
      in [b64_char (n div 1024), b64_char (n div 16 mod 64), b64_char (n mod 16 * 4), CHR ''=''])"
| "b64encode (a # b # c # rest) =
     (let n = (of_char a :: int) * 65536 + of_char b * 256 + of_char c
      in [b64_char (n div 262144), b64_char (n div 4096 mod 64), b64_char (n div 64 mod 64),
          b64_char (n mod 64)] @ b64encode rest)"

definition column_named :: "dataframe \<Rightarrow> json \<Rightarrow> py_error + column" where
  \<comment> \<open>\<open>df[x]\<close>\<close>
  "column_named df k =
     (case k of
        JStr s \<Rightarrow>
          (case find (\<lambda>series. col_name series = s) df of
             None \<Rightarrow> Inl KeyError
           | Some series \<Rightarrow> Inr series)
      | _ \<Rightarrow> Inl KeyError)"

definition label_index :: "dataframe \<Rightarrow> string \<Rightarrow> nat" where
  "label_index df s = length (takeWhile (\<lambda>series. col_name series \<noteq> s) df)"

definition formatted_dates :: "env \<Rightarrow> column \<Rightarrow> column" where
  \<comment> \<open>\<open>temp[x].dt.strftime("%Y-%m-%d")\<close>: texts, missing where the timestamp is\<close>
  "formatted_dates E series =
     series\<lparr>col_dtype := Object,
            col_cells := map (\<lambda>v. case v of TimeV t \<Rightarrow> StrV (strftime E t) | _ \<Rightarrow> NA) (col_cells series)\<rparr>"

definition draw :: "env \<Rightarrow> plot \<Rightarrow> py_error + plot option" where
  \<comment> \<open>one seaborn call: it raises, or the plot is on the current figure\<close>
  "draw E p = (case sns_draw E p of Some e \<Rightarrow> Inl e | None \<Rightarrow> Inr (Some p))"

definition plot_chart :: "env \<Rightarrow> heap \<Rightarrow> nat \<Rightarrow> json \<Rightarrow> json \<Rightarrow> json \<Rightarrow> heap \<times> (py_error + plot option)" where
  \<comment> \<open>the \<open>if\<close>, \<open>elif\<close> chain at the head of the \<open>try\<close> block; \<open>Inr None\<close> is the
      \<open>return None\<close> of an unknown chart type\<close>
  "plot_chart E h df chart_type xv yv =
     (if chart_type = JStr ''histogram'' then
        (case column_named (h ! df) xv of
           Inl e \<Rightarrow> (h, Inl e)
         | Inr series \<Rightarrow>
             (case issubdtype_number (col_dtype series) of
                Inl e \<Rightarrow> (h, Inl e)
              | Inr is_number \<Rightarrow>
                  if \<not> is_number then (h, draw E (CountPlot (h ! df) xv))
                  else (h, draw E (HistPlot (filter (\<lambda>v. v \<noteq> NA) (col_cells series))))))
      else if chart_type = JStr ''scatter'' then (h, draw E (ScatterPlot (h ! df) xv yv))
      else if chart_type = JStr ''bar'' then
        (if py_truthy yv then (h, draw E (BarPlot (h ! df) xv yv))
         else case column_named (h ! df) xv of
           Inl e \<Rightarrow> (h, Inl e)
         | Inr series \<Rightarrow>
             (case issubdtype_datetime64 (col_dtype series) of
                Inl e \<Rightarrow> (h, Inl e)
              | Inr is_dt \<Rightarrow>
                  if is_dt then
                    (let (h1, temp) = df_copy h df;
                         h2 = set_column h1 temp (label_index (h1 ! temp) (col_name series))
                                (formatted_dates E series)
                     in (h2, draw E (CountPlot (h2 ! temp) xv)))
                  else (h, draw E (CountPlot (h ! df) xv))))
      else if chart_type = JStr ''countplot'' then (h, draw E (CountPlot (h ! df) xv))
      else if chart_type = JStr ''line'' then (h, draw E (LinePlot (h ! df) xv yv))
      else (h, Inr None))"

definition save_figure :: "env \<Rightarrow> plot \<Rightarrow> py_error + string" where
  \<comment> \<open>\<open>tight_layout\<close>, \<open>savefig\<close> into the buffer, \<open>close\<close>, and the encoding of the bytes\<close>
  "save_figure E p =
     (case plt_tight_layout E of
        Some e \<Rightarrow> Inl e
      | None \<Rightarrow>
          (case plt_savefig E p of
             Inl e \<Rightarrow> Inl e
           | Inr data \<Rightarrow>
               (case plt_close E of
                  Some e \<Rightarrow> Inl e
                | None \<Rightarrow> Inr (b64encode data))))"

definition try_block ::
  "env \<Rightarrow> heap \<Rightarrow> nat \<Rightarrow> json \<Rightarrow> json \<Rightarrow> json \<Rightarrow> heap \<times> bool \<times> (py_error + string option)" where
  \<comment> \<open>the body of the \<open>try\<close>: the store, whether the figure has been closed, and the value
      returned or the exception raised\<close>
  "try_block E h df chart_type xv yv =
     (case plot_chart E h df chart_type xv yv of
        (h1, Inl e) \<Rightarrow> (h1, False, Inl e)
      | (h1, Inr None) \<Rightarrow> (h1, False, Inr None)
      | (h1, Inr (Some p)) \<Rightarrow>
          (case save_figure E p of
             Inl e \<Rightarrow> (h1, False, Inl e)
           | Inr img \<Rightarrow> (h1, True, Inr (Some img))))"

definition label_repeated :: "dataframe \<Rightarrow> json \<Rightarrow> bool" where
  \<comment> \<open>more than one column carries the label: \<open>df[x]\<close> is then a table, not a column, and
      \<open>df[x].dtype\<close> raises \<open>AttributeError\<close>\<close>
  "label_repeated df xv = (1 < length (filter (\<lambda>series. JStr (col_name series) = xv) df))"

definition generate_chart ::
  "env \<Rightarrow> heap \<times> nat \<Rightarrow> nat \<Rightarrow> json \<Rightarrow> json \<Rightarrow> json \<Rightarrow> (heap \<times> nat) \<times> (py_error + string option)" where
  \<comment> \<open>the state is the store and the number of open figures; the two column checks, the
      \<open>print\<close> of \<open>df[x].dtype\<close> and \<open>plt.figure\<close> come before the \<open>try\<close>\<close>
  "generate_chart E s df chart_type xv yv =
     (let (h, figs) = s; cols = map col_name (h ! df) in
      case cols_contains cols xv of
        Inl e \<Rightarrow> (s, Inl e)
      | Inr x_in \<Rightarrow>
          if \<not> x_in then (s, Inr None)
          else case (if yv = JNull then Inr True else cols_contains cols yv) of
            Inl e \<Rightarrow> (s, Inl e)
          | Inr y_ok \<Rightarrow>
              if \<not> y_ok then (s, Inr None)
              else if label_repeated (h ! df) xv then (s, Inl AttributeError)
              else case plt_figure E of
                Some e \<Rightarrow> (s, Inl e)
              | None \<Rightarrow>
                  (case try_block E h df chart_type xv yv of
                     (h1, closed, Inr img) \<Rightarrow> ((h1, if closed then figs else figs + 1), Inr img)
                   | (h1, closed, Inl e) \<Rightarrow>
                       (case plt_close_on_error E of
                          Some e' \<Rightarrow> ((h1, figs + 1), Inl e')
                        | None \<Rightarrow> ((h1, figs), Inr None))))"

definition columns_present :: "dataframe \<Rightarrow> json \<Rightarrow> json \<Rightarrow> bool" where
  \<comment> \<open>the two checks that precede the figure: \<open>x in df.columns\<close>, and \<open>y\<close> is \<open>None\<close> or
      \<open>y in df.columns\<close>\<close>
  "columns_present df xv yv =
     (cols_contains (map col_name df) xv = Inr True
      \<and> (yv = JNull \<or> cols_contains (map col_name df) yv = Inr True))"

section \<open>Sessions and the two coordinators\<close>

text \<open>
  The state of the process: the store of tables, the number of open figures,
  \<open>_EXCEL_CACHE\<close> (session to sheet name to table, in sheet order) and the render cache.
\<close>

record world =
  heap :: heap
  figures :: nat
  EXCEL_CACHE :: "string \<rightharpoonup> (string \<times> nat) list"
  viz :: viz_cache

definition get_sheet_df :: "world \<Rightarrow> string \<Rightarrow> string \<Rightarrow> py_error + nat" where
  "get_sheet_df w session_id sheet_name =
     (case EXCEL_CACHE w session_id of
        None \<Rightarrow> Inl KeyError
      | Some sheets \<Rightarrow>
          (case map_of sheets sheet_name of
             None \<Rightarrow> Inl KeyError
           | Some df \<Rightarrow> Inr df))"

definition opt_str :: "env \<Rightarrow> json \<Rightarrow> py_error + string option" where
  \<comment> \<open>a field declared \<open>Optional[str]\<close>\<close>
  "opt_str E v = (if v = JNull then Inr None else map_sum id Some (str_validator E v))"

definition new_VizConfig ::
  "env \<Rightarrow> json \<Rightarrow> json \<Rightarrow> json \<Rightarrow> json \<Rightarrow> string option \<Rightarrow> py_error + VizConfig" where
  \<comment> \<open>\<open>VizConfig(chart_type=..., x=..., y=..., description=..., image_base64=...)\<close>\<close>
  "new_VizConfig E ct xv yv desc img =
     (case str_validator E ct of
        Inl e \<Rightarrow> Inl e
      | Inr ct' \<Rightarrow>
          (case opt_str E xv of
             Inl e \<Rightarrow> Inl e
           | Inr x' \<Rightarrow>
               (case opt_str E yv of
                  Inl e \<Rightarrow> Inl e
                | Inr y' \<Rightarrow>
                    (case str_validator E desc of
                       Inl e \<Rightarrow> Inl e
                     | Inr desc' \<Rightarrow>
                         Inr \<lparr>viz_chart_type = ct', viz_x = x', viz_y = y', viz_hue = None,
                              viz_description = desc', viz_image_base64 = img\<rparr>))))"

definition sug_description :: "json \<Rightarrow> json" where
  \<comment> \<open>\<open>s.get("description", "")\<close>\<close>
  "sug_description s = (case s of JObj d \<Rightarrow> dict_get d ''description'' (JStr []) | _ \<Rightarrow> JStr [])"

fun render_suggestions ::
  "env \<Rightarrow> heap \<times> nat \<Rightarrow> nat \<Rightarrow> json list \<Rightarrow> (heap \<times> nat) \<times> (py_error + VizConfig list)" where
  \<comment> \<open>the loop of \<open>suggest_visualizations\<close>\<close>
  "render_suggestions E s df [] = (s, Inr [])"
| "render_suggestions E s df (item # rest) =
     (case generate_chart E s df (sug_get item ''chart_type'') (sug_get item ''x'') (sug_get item ''y'') of
        (s1, Inl e) \<Rightarrow> (s1, Inl e)
      | (s1, Inr img_base64) \<Rightarrow>
          (case new_VizConfig E (sug_get item ''chart_type'') (sug_get item ''x'') (sug_get item ''y'')
                  (sug_description item) img_base64 of
             Inl e \<Rightarrow> (s1, Inl e)
           | Inr v \<Rightarrow>
               (case render_suggestions E s1 df rest of
                  (s2, Inl e) \<Rightarrow> (s2, Inl e)
                | (s2, Inr vs) \<Rightarrow> (s2, Inr (v # vs)))))"

definition suggest_visualizations ::
  "env \<Rightarrow> world \<Rightarrow> string \<Rightarrow> string \<Rightarrow> world \<times> (py_error + VizConfig list)" where
  \<comment> \<open>services/viz\_service.py, one sheet\<close>
  "suggest_visualizations E w session_id sheet_name =
     (case get_sheet_df w session_id sheet_name of
        Inl e \<Rightarrow> (w, Inl e)
      | Inr df_raw \<Rightarrow>
          (let (h1, df) = prepare_df_for_viz E (heap w) df_raw in
           case get_viz_suggestions_for_df E h1 df of
             (h2, Inl e) \<Rightarrow> (w\<lparr>heap := h2\<rparr>, Inl e)
           | (h2, Inr suggestions) \<Rightarrow>
               (case render_suggestions E (h2, figures w) df suggestions of
                  ((h3, figs), res) \<Rightarrow> (w\<lparr>heap := h3, figures := figs\<rparr>, res))))"

type_synonym task = "string \<times> nat \<times> json \<times> json \<times> json \<times> json"

definition allowed_suggestions :: "(string \<times> string list) list option \<Rightarrow> string \<Rightarrow> json list \<Rightarrow> json list" where
  \<comment> \<open>\<open>if user_filters and sheet_name in user_filters\<close>: keep the allowed chart types\<close>
  "allowed_suggestions user_filters sheet_name suggestions =
     (case user_filters of
        None \<Rightarrow> suggestions
      | Some filters \<Rightarrow>
          (case map_of filters sheet_name of
             None \<Rightarrow> suggestions
           | Some allowed_types \<Rightarrow>
               filter (\<lambda>s. case sug_get s ''chart_type'' of JStr ct \<Rightarrow> ct \<in> set allowed_types | _ \<Rightarrow> False)
                 suggestions))"

fun build_tasks ::
  "(env \<Rightarrow> heap \<Rightarrow> nat \<Rightarrow> heap \<times> (py_error + json list)) \<Rightarrow> env
   \<Rightarrow> (string \<times> string list) list option \<Rightarrow> heap \<Rightarrow> (string \<times> nat) list
   \<Rightarrow> heap \<times> (py_error + task list)" where
  \<comment> \<open>step 2; the first argument is the service's \<open>_get_viz_suggestions_for_df\<close>\<close>
  "build_tasks suggest E user_filters h [] = (h, Inr [])"
| "build_tasks suggest E user_filters h ((sheet_name, df_raw) # rest) =
     (let (h1, df) = prepare_df_for_viz E h df_raw in
      case suggest E h1 df of
        (h2, Inl e) \<Rightarrow> (h2, Inl e)
      | (h2, Inr suggestions) \<Rightarrow>
          (case build_tasks suggest E user_filters h2 rest of
             (h3, Inl e) \<Rightarrow> (h3, Inl e)
           | (h3, Inr later) \<Rightarrow>
               (h3, Inr (map (\<lambda>s. (sheet_name, df, sug_get s ''chart_type'', sug_get s ''x'',
                                   sug_get s ''y'', sug_description s))
                           (allowed_suggestions user_filters sheet_name suggestions) @ later))))"

definition render_chart_process ::
  "env \<Rightarrow> heap \<Rightarrow> task \<Rightarrow> py_error + (string \<times> json \<times> json \<times> json \<times> json \<times> string option)" where
  \<comment> \<open>run in a worker process, on its own copy of the table and with its own figures: what
      it allocates or opens does not reach the coordinator\<close>
  "render_chart_process E h t =
     (case t of (sheet_name, df, ct, xv, yv, desc) \<Rightarrow>
        (case snd (generate_chart E (h, 0) df ct xv yv) of
           Inl e \<Rightarrow> Inl e
         | Inr img \<Rightarrow> Inr (sheet_name, ct, xv, yv, desc, img)))"

fun executor_map :: "('a \<Rightarrow> py_error + 'b) \<Rightarrow> 'a list \<Rightarrow> py_error + 'b list" where
  \<comment> \<open>\<open>list(executor.map(f, tasks))\<close>: results in task order; a worker's exception is raised
      again when its result is read\<close>
  "executor_map f [] = Inr []"
| "executor_map f (t # ts) =
     (case f t of
        Inl e \<Rightarrow> Inl e
      | Inr r \<Rightarrow> (case executor_map f ts of Inl e \<Rightarrow> Inl e | Inr rs \<Rightarrow> Inr (r # rs)))"

fun collect_results ::
  "env \<Rightarrow> (string \<times> json \<times> json \<times> json \<times> json \<times> string option) list \<Rightarrow> viz_result
   \<Rightarrow> py_error + viz_result" where
  \<comment> \<open>step 4\<close>
  "collect_results E [] final_result = Inr final_result"
| "collect_results E ((sheet_name, ct, xv, yv, desc, img) # rest) final_result =
     (case new_VizConfig E ct xv yv desc img of
        Inl e \<Rightarrow> Inl e
      | Inr v \<Rightarrow>
          collect_results E rest
            (AList.update sheet_name
               ((case map_of final_result sheet_name of None \<Rightarrow> [] | Some vs \<Rightarrow> vs) @ [v])
               final_result))"

definition call_store_visualizations ::
  "viz_cache \<Rightarrow> string \<Rightarrow> viz_result \<Rightarrow> string option \<Rightarrow> py_error + viz_cache" where
  \<comment> \<open>a call of \<open>store_visualizations\<close>; \<open>mode\<close> has no default, so a call that leaves it
      out raises \<open>TypeError\<close> before the body runs\<close>
  "call_store_visualizations c session_id data mode =
     (case mode of
        None \<Rightarrow> Inl TypeError
      | Some m \<Rightarrow> Inr (store_visualizations c session_id data m))"

definition compute_all_sheets ::
  "string \<Rightarrow> (env \<Rightarrow> heap \<Rightarrow> nat \<Rightarrow> heap \<times> (py_error + json list)) \<Rightarrow> env \<Rightarrow> world \<Rightarrow> string
   \<Rightarrow> (string \<times> string list) list option \<Rightarrow> world \<times> (py_error + viz_result)" where
  \<comment> \<open>what follows the cache check\<close>
  "compute_all_sheets mode suggest E w session_id user_filters =
     (case EXCEL_CACHE w session_id of
        None \<Rightarrow> (w, Inl KeyError)
      | Some sheet_dfs \<Rightarrow>
          if sheet_dfs = [] then (w, Inl KeyError)
          else case build_tasks suggest E user_filters (heap w) sheet_dfs of
            (h1, Inl e) \<Rightarrow> (w\<lparr>heap := h1\<rparr>, Inl e)
          | (h1, Inr tasks) \<Rightarrow>
              if tasks = [] then
                (case call_store_visualizations (viz w) session_id [] None of
                   Inl e \<Rightarrow> (w\<lparr>heap := h1\<rparr>, Inl e)
                 | Inr c \<Rightarrow> (w\<lparr>heap := h1, viz := c\<rparr>, Inr []))
              else case executor_map (render_chart_process E h1) tasks of
                Inl e \<Rightarrow> (w\<lparr>heap := h1\<rparr>, Inl e)
              | Inr results \<Rightarrow>
                  (case collect_results E results [] of
                     Inl e \<Rightarrow> (w\<lparr>heap := h1\<rparr>, Inl e)
                   | Inr final_result \<Rightarrow>
                       (case call_store_visualizations (viz w) session_id final_result (Some mode) of
                          Inl e \<Rightarrow> (w\<lparr>heap := h1\<rparr>, Inl e)
                        | Inr c \<Rightarrow> (w\<lparr>heap := h1, viz := c\<rparr>, Inr final_result))))"

definition all_sheets ::
  "string \<Rightarrow> (env \<Rightarrow> heap \<Rightarrow> nat \<Rightarrow> heap \<times> (py_error + json list)) \<Rightarrow> env \<Rightarrow> world \<Rightarrow> string
   \<Rightarrow> (string \<times> string list) list option \<Rightarrow> world \<times> (py_error + viz_result)" where
  \<comment> \<open>the body the two services share: \<open>if cached: return cached\<close>, then the computation\<close>
  "all_sheets mode suggest E w session_id user_filters =
     (case get_cached_visualizations (viz w) session_id mode of
        None \<Rightarrow> compute_all_sheets mode suggest E w session_id user_filters
      | Some cached \<Rightarrow>
          if cached \<noteq> [] then (w, Inr cached)
          else compute_all_sheets mode suggest E w session_id user_filters)"

definition suggest_visualizations_for_all_sheets ::
  "env \<Rightarrow> world \<Rightarrow> string \<Rightarrow> (string \<times> string list) list option \<Rightarrow> world \<times> (py_error + viz_result)" where
  \<comment> \<open>services/viz\_service.py\<close>
  "suggest_visualizations_for_all_sheets = all_sheets ''ai'' get_viz_suggestions_for_df"

definition manual_suggest_visualizations_for_all_sheets ::
  "env \<Rightarrow> world \<Rightarrow> string \<Rightarrow> (string \<times> string list) list option \<Rightarrow> world \<times> (py_error + viz_result)" where
  \<comment> \<open>services/manual\_viz\_service.py\<close>
  "manual_suggest_visualizations_for_all_sheets = all_sheets ''manual'' manual_get_viz_suggestions_for_df"

text \<open>
  The table a session holds for a sheet, and the relation between the state before and
  after a call under which every table allocated before the call, and the map from sheets
  to tables, are as they were.
\<close>

definition stored_table :: "world \<Rightarrow> string \<Rightarrow> string \<Rightarrow> dataframe option" where
  "stored_table w session_id sheet_name =
     (case get_sheet_df w session_id sheet_name of
        Inl e \<Rightarrow> None
      | Inr df \<Rightarrow> if df < length (heap w) then Some (heap w ! df) else None)"

definition grows :: "heap \<Rightarrow> heap \<Rightarrow> bool" where
  "grows h h' = (take (length h) h' = h)"

definition tables_kept :: "world \<Rightarrow> world \<Rightarrow> bool" where
  "tables_kept w w' = (EXCEL_CACHE w' = EXCEL_CACHE w \<and> grows (heap w) (heap w'))"

section \<open>Example inputs\<close>

text \<open>Tables and responses at which the theorems below are evaluated.\<close>

definition sales_by_date :: dataframe where
  "sales_by_date =
     [\<lparr>col_name = ''order_date'', col_dtype = Object, col_cells = [StrV ''mon'', StrV ''tue'']\<rparr>,
      \<lparr>col_name = ''region'', col_dtype = Object, col_cells = [StrV ''north'', StrV ''north'']\<rparr>]"

definition orders :: dataframe where
  "orders =
     [\<lparr>col_name = ''order_date'', col_dtype = Object, col_cells = [StrV ''2024-01-05'', StrV ''2024-01-06'']\<rparr>,
      \<lparr>col_name = ''amount'', col_dtype = Float64, col_cells = [NumV 120, NumV 80]\<rparr>,
      \<lparr>col_name = ''qty'', col_dtype = Int64, col_cells = [NumV 3, NumV 2]\<rparr>]"

definition untidy_candidates :: json where
  "untidy_candidates =
     JList
       [JObj [(''chart_type'', JStr '' BAR ''), (''x'', JStr ''qty'')],
        JNum 3,
        JObj [(''chart_type'', JStr ''bar''), (''x'', JStr ''qty''), (''y'', JNull),
              (''description'', JStr ''again'')],
        JObj [(''chart_type'', JStr ''line''), (''x'', JStr ''qty'')],
        JObj [(''chart_type'', JStr ''pie''), (''x'', JStr ''qty'')],
        JObj [(''chart_type'', JStr ''Scatter''), (''x'', JStr ''amount''), (''y'', JStr ''qty'')],
        JObj [(''chart_type'', JStr ''line''), (''x'', JStr ''price''), (''y'', JStr ''qty'')],
        JObj [(''chart_type'', JNull), (''x'', JNum 1)]]"

subsection \<open>A reader of JSON texts\<close>

text \<open>
  A reader for the JSON texts of the examples, standing in for \<open>json.loads\<close> there:
  \<open>null\<close>, \<open>true\<close>, \<open>false\<close>, integers, strings without escapes, lists and objects.
  The first argument bounds the nesting and the number of elements read.
\<close>

definition skip_ws :: "string \<Rightarrow> string" where
  "skip_ws s = dropWhile (\<lambda>c. c \<in> set [CHR 0x20, CHR 0x09, CHR 0x0A, CHR 0x0D]) s"

fun read_string :: "string \<Rightarrow> string \<Rightarrow> (string \<times> string) option" where
  \<comment> \<open>the text up to the closing double quote, and what follows it\<close>
  "read_string acc [] = None"
| "read_string acc (c # cs) =
     (if c = CHR 0x22 then Some (rev acc, cs)
      else if c = CHR 0x5C then None
      else read_string (c # acc) cs)"

definition digit_value :: "char \<Rightarrow> int option" where
  "digit_value c = map_of (zip ''0123456789'' [0, 1, 2, 3, 4, 5, 6, 7, 8, 9]) c"

definition read_digits :: "string \<Rightarrow> (int \<times> string) option" where
  "read_digits s =
     (let ds = takeWhile (\<lambda>c. digit_value c \<noteq> None) s
      in if ds = [] then None
         else Some (foldl (\<lambda>n c. 10 * n + the (digit_value c)) 0 ds, drop (length ds) s))"

fun read_value :: "nat \<Rightarrow> string \<Rightarrow> (json \<times> string) option"
  and read_elements :: "nat \<Rightarrow> string \<Rightarrow> (json list \<times> string) option"
  and read_members :: "nat \<Rightarrow> string \<Rightarrow> ((string \<times> json) list \<times> string) option" where
  "read_value 0 s = None"
| "read_value (Suc n) s =
     (case skip_ws s of
        [] \<Rightarrow> None
      | c # cs \<Rightarrow>
          if c = CHR 0x22 then map_option (\<lambda>(t, r). (JStr t, r)) (read_string [] cs)
          else if c = CHR ''['' then
            (case skip_ws cs of
               [] \<Rightarrow> None
             | d # r \<Rightarrow> if d = CHR '']'' then Some (JList [], r)
                        else map_option (\<lambda>(vs, r). (JList vs, r)) (read_elements n cs))
          else if c = CHR ''{'' then
            (case skip_ws cs of
               [] \<Rightarrow> None
             | d # r \<Rightarrow> if d = CHR ''}'' then Some (JObj [], r)
                        else map_option (\<lambda>(kvs, r). (JObj (fold (\<lambda>(k, v). AList.update k v) kvs []), r))
                               (read_members n cs))
          else if starts_with ''null'' (c # cs) then Some (JNull, drop 4 (c # cs))
          else if starts_with ''true'' (c # cs) then Some (JBool True, drop 4 (c # cs))
          else if starts_with ''false'' (c # cs) then Some (JBool False, drop 5 (c # cs))
          else if c = CHR ''-'' then map_option (\<lambda>(m, r). (JNum (- m), r)) (read_digits cs)
          else map_option (\<lambda>(m, r). (JNum m, r)) (read_digits (c # cs)))"
| "read_elements 0 s = None"
| "read_elements (Suc n) s =
     (case read_value n s of
        None \<Rightarrow> None
      | Some (v, r) \<Rightarrow>
          (case skip_ws r of
             [] \<Rightarrow> None
           | c # r' \<Rightarrow>
               if c = CHR '']'' then Some ([v], r')
               else if c = CHR '','' then map_option (\<lambda>(vs, r''). (v # vs, r'')) (read_elements n r')
               else None))"
| "read_members 0 s = None"
| "read_members (Suc n) s =
     (case skip_ws s of
        [] \<Rightarrow> None
      | q # s1 \<Rightarrow>
          if q \<noteq> CHR 0x22 then None
          else case read_string [] s1 of
            None \<Rightarrow> None
          | Some (k, s2) \<Rightarrow>
              (case skip_ws s2 of
                 [] \<Rightarrow> None
               | colon # s3 \<Rightarrow>
                   if colon \<noteq> CHR '':'' then None
                   else case read_value n s3 of
                     None \<Rightarrow> None
                   | Some (v, r) \<Rightarrow>
                       (case skip_ws r of
                          [] \<Rightarrow> None
                        | c # r' \<Rightarrow>
                            if c = CHR ''}'' then Some ([(k, v)], r')
                            else if c = CHR '','' then
                              map_option (\<lambda>(kvs, r''). ((k, v) # kvs, r'')) (read_members n r')
                            else None)))"

definition read_json :: "string \<Rightarrow> json option" where
  "read_json s =
     (case read_value (length s) s of
        None \<Rightarrow> None
      | Some (v, r) \<Rightarrow> if skip_ws r = [] then Some v else None)"

subsection \<open>An outside world\<close>

text \<open>
  \<open>read_dates\<close> stands in for \<open>pd.to_datetime\<close>: a text of the form \<open>yyyy-mm-dd\<close>
  becomes the timestamp numbered \<open>yyyymmdd\<close>, any other cell is missing. In \<open>offline\<close>
  no API key is configured and every drawing call succeeds; in \<open>chatty\<close> the oracle
  answers with prose around one JSON object.
\<close>

definition iso_date :: "string \<Rightarrow> bool" where
  "iso_date s =
     (length s = 10 \<and> s ! 4 = CHR ''-'' \<and> s ! 7 = CHR ''-''
      \<and> list_all (\<lambda>i. digit_value (s ! i) \<noteq> None) [0, 1, 2, 3, 5, 6, 8, 9])"

definition read_date :: "cell \<Rightarrow> cell" where
  "read_date v =
     (case v of
        StrV s \<Rightarrow>
          if iso_date s
          then TimeV (foldl (\<lambda>n c. 10 * n + the (digit_value c)) 0 (filter (\<lambda>c. c \<noteq> CHR ''-'') s))
          else NA
      | TimeV t \<Rightarrow> TimeV t
      | _ \<Rightarrow> NA)"

definition read_dates :: "column \<Rightarrow> py_error + column" where
  "read_dates series = Inr (series\<lparr>col_dtype := Datetime64, col_cells := map read_date (col_cells series)\<rparr>)"

definition offline :: env where
  "offline =
     \<lparr>to_datetime = read_dates,
      client = None,
      json_loads = read_json,
      strftime = show_int,
      str_validator = (\<lambda>v. case v of JStr s \<Rightarrow> Inr s | _ \<Rightarrow> Inl ValidationError),
      plt_figure = None,
      sns_draw = (\<lambda>p. None),
      plt_tight_layout = None,
      plt_savefig = (\<lambda>p. Inr ''PNG''),
      plt_close = None,
      plt_close_on_error = None\<rparr>"

definition prose_reply :: string where
  \<open>prose_reply =
     ''Here is what I suggest: {"chart_type":"bar","x":"region","y":null,"description":"counts"} Hope it helps.''\<close>

definition chatty :: env where
  "chatty = offline\<lparr>client := Some (\<lambda>schema. Inr prose_reply)\<rparr>"

definition orders_by_region :: dataframe where
  "orders_by_region =
     orders @ [\<lparr>col_name = ''region'', col_dtype = Object, col_cells = [StrV ''north'', StrV ''north'']\<rparr>]"

subsection \<open>Sessions\<close>

text \<open>
  A session with one sheet of orders, and a session whose only sheet is blank. In
  \<open>no_display\<close> creating a figure fails. \<open>twins\<close> is a table with a repeated label.
\<close>

definition empty_cache :: viz_cache where
  "empty_cache = \<lparr>VIZ_CACHE_MANUAL = Map.empty, VIZ_CACHE_AI = Map.empty\<rparr>"

definition orders_session :: world where
  "orders_session =
     \<lparr>heap = [orders_by_region], figures = 0,
      EXCEL_CACHE = [''s1'' \<mapsto> [(''Sheet1'', 0)]], viz = empty_cache\<rparr>"

definition blank_session :: world where
  "blank_session =
     \<lparr>heap = [[]], figures = 0,
      EXCEL_CACHE = [''s2'' \<mapsto> [(''Sheet1'', 0)]], viz = empty_cache\<rparr>"



definition dry_pen :: env where
  \<comment> \<open>every seaborn call raises\<close>
  "dry_pen = offline\<lparr>sns_draw := (\<lambda>p. Some BackendError)\<rparr>"

definition region_session :: world where
  \<comment> \<open>one sheet with the single column \<open>region\<close>\<close>
  "region_session =
     \<lparr>heap = [[\<lparr>col_name = ''region'', col_dtype = Object, col_cells = [StrV ''north'', StrV ''north'']\<rparr>]],
      figures = 0, EXCEL_CACHE = [''s1'' \<mapsto> [(''Sheet1'', 0)]], viz = empty_cache\<rparr>"

section \<open>Verified properties\<close>

subsection \<open>The render cache\<close>

text \<open>
  Claim C10. For a mode string other than \<open>manual\<close> and \<open>ai\<close>, the lookup returns
  \<open>None\<close> and the store leaves both cache dictionaries as they were. Both functions are
  total, so neither raises.
\<close>

theorem cache_unknown_mode_noop:
  assumes "mode \<noteq> ''manual''" and "mode \<noteq> ''ai''"
  shows "get_cached_visualizations c session_id mode = None
       \<and> store_visualizations c session_id data mode = c"
  using assms by (simp add: get_cached_visualizations_def store_visualizations_def)

theorem cache_unknown_mode_noop_witness:
  "''rule-based'' \<noteq> ''manual'' \<and> ''rule-based'' \<noteq> ''ai''
   \<and> get_cached_visualizations
       \<lparr>VIZ_CACHE_MANUAL = [''s1'' \<mapsto> []], VIZ_CACHE_AI = [''s1'' \<mapsto> []]\<rparr> ''s1'' ''rule-based'' = None
   \<and> store_visualizations
       \<lparr>VIZ_CACHE_MANUAL = [''s1'' \<mapsto> []], VIZ_CACHE_AI = [''s1'' \<mapsto> []]\<rparr> ''s1'' [] ''rule-based''
     = \<lparr>VIZ_CACHE_MANUAL = [''s1'' \<mapsto> []], VIZ_CACHE_AI = [''s1'' \<mapsto> []]\<rparr>"
  using cache_unknown_mode_noop [of "''rule-based''"
      "\<lparr>VIZ_CACHE_MANUAL = [''s1'' \<mapsto> []], VIZ_CACHE_AI = [''s1'' \<mapsto> []]\<rparr>" "''s1''" "[]"]
  by simp

subsection \<open>Type inference and the statistical summary\<close>

lemma update_fresh_key:
  "k \<notin> fst ` set al \<Longrightarrow> AList.update k v al = al @ [(k, v)]"
  by (induction al) auto

lemma get_column_datatype_loop_other:
  "get_column_datatype_loop cs d = Inr d' \<Longrightarrow> n \<notin> col_name ` set cs \<Longrightarrow> map_of d' n = map_of d n"
proof (induction cs arbitrary: d)
  case Nil
  then show ?case by simp
next
  case (Cons c cs)
  then obtain k where k: "column_datatype c = Inr k"
    and rest: "get_column_datatype_loop cs (AList.update (col_name c) k d) = Inr d'"
    by (auto split: sum.splits)
  from Cons.prems(2) have "n \<noteq> col_name c" and "n \<notin> col_name ` set cs" by auto
  with Cons.IH [OF rest] show ?case by (simp add: update_conv')
qed

lemma get_column_datatype_loop_lookup:
  "get_column_datatype_loop cs d = Inr d' \<Longrightarrow> distinct (map col_name cs) \<Longrightarrow> c \<in> set cs
   \<Longrightarrow> column_datatype c = Inr (the (map_of d' (col_name c))) \<and> map_of d' (col_name c) \<noteq> None"
proof (induction cs arbitrary: d)
  case Nil
  then show ?case by simp
next
  case (Cons a cs)
  then obtain k where k: "column_datatype a = Inr k"
    and rest: "get_column_datatype_loop cs (AList.update (col_name a) k d) = Inr d'"
    by (auto split: sum.splits)
  show ?case
  proof (cases "c = a")
    case True
    from Cons.prems(2) have "col_name a \<notin> col_name ` set cs" by simp
    from get_column_datatype_loop_other [OF rest this]
    have "map_of d' (col_name a) = Some k" by (simp add: update_conv')
    with k True show ?thesis by simp
  next
    case False
    with Cons.prems have "c \<in> set cs" and "distinct (map col_name cs)" by auto
    with Cons.IH [OF rest] show ?thesis by simp
  qed
qed

lemma get_column_datatype_loop_items:
  "get_column_datatype_loop cs d = Inr d' \<Longrightarrow> distinct (map fst d @ map col_name cs)
   \<Longrightarrow> d' = d @ map (\<lambda>c. (col_name c, projr (column_datatype c))) cs"
proof (induction cs arbitrary: d)
  case Nil
  then show ?case by simp
next
  case (Cons a cs)
  then obtain k where k: "column_datatype a = Inr k"
    and rest: "get_column_datatype_loop cs (AList.update (col_name a) k d) = Inr d'"
    by (auto split: sum.splits)
  from Cons.prems(2) have fresh: "col_name a \<notin> fst ` set d" by auto
  then have upd: "AList.update (col_name a) k d = d @ [(col_name a, k)]"
    by (rule update_fresh_key)
  from Cons.prems(2) have "distinct (map fst (d @ [(col_name a, k)]) @ map col_name cs)" by auto
  with Cons.IH [of "d @ [(col_name a, k)]"] rest upd k show ?case by simp
qed

lemma summary_fold_other:
  "n \<notin> col_name ` set cs \<Longrightarrow>
   map_of (fold (\<lambda>series summary. AList.update (col_name series) (column_summary series) summary) cs d) n
   = map_of d n"
  by (induction cs arbitrary: d) (auto simp: update_conv')

lemma summary_fold_lookup:
  "distinct (map col_name cs) \<Longrightarrow> c \<in> set cs \<Longrightarrow>
   map_of (fold (\<lambda>series summary. AList.update (col_name series) (column_summary series) summary) cs d)
     (col_name c) = Some (column_summary c)"
proof (induction cs arbitrary: d)
  case Nil
  then show ?case by simp
next
  case (Cons a cs)
  show ?case
  proof (cases "c = a")
    case True
    from Cons.prems(1) have "col_name a \<notin> col_name ` set cs" by simp
    from summary_fold_other [OF this] True show ?thesis by (simp add: update_conv')
  next
    case False
    with Cons.prems have "c \<in> set cs" and "distinct (map col_name cs)" by auto
    with Cons.IH show ?thesis by simp
  qed
qed

lemma column_kinds_agree_iff:
  assumes "column_datatype series = Inr kind"
  shows "kind = stype (column_summary series) \<longleftrightarrow>
         (is_numeric_dtype (col_dtype series)
          \<or> (col_dtype series \<noteq> Datetime64 \<and> \<not> name_has_date_or_time (col_name series))
          \<or> (name_has_date_or_time (col_name series)
              \<and> series_count series \<noteq> series_nunique series
              \<and> \<not> py_contains ''id'' (py_lower (col_name series))))"
  using assms
  by (auto simp: column_datatype_def column_summary_def issubdtype_datetime64_def
        name_has_date_or_time_def Let_def split: if_splits)

text \<open>
  Claim C9, as the code has it. On a table with unique labels that the type inference
  accepts, the kind of a column in the summary equals its inferred kind exactly in three
  cases: the column is numeric; it is neither of datetime dtype nor named with
  \<open>date\<close> or \<open>time\<close>; or it is named with \<open>date\<close> or \<open>time\<close>, not with \<open>id\<close>,
  and has a repeated value. The summary tests the key and categorical kinds before the
  name, and never looks at a datetime dtype.
\<close>

theorem summary_kind_agrees_iff:
  assumes "distinct (map col_name df)"
    and "get_column_datatype df = Inr datatype"
    and "series \<in> set df"
  shows "map_of datatype (col_name series) = map_option stype (map_of (summary_of df) (col_name series))
         \<longleftrightarrow>
         (is_numeric_dtype (col_dtype series)
          \<or> (col_dtype series \<noteq> Datetime64 \<and> \<not> name_has_date_or_time (col_name series))
          \<or> (name_has_date_or_time (col_name series)
              \<and> series_count series \<noteq> series_nunique series
              \<and> \<not> py_contains ''id'' (py_lower (col_name series))))"
proof -
  from get_column_datatype_loop_lookup [OF assms(2) [unfolded get_column_datatype_def] assms(1) assms(3)]
  obtain kind where kind: "column_datatype series = Inr kind"
    and look: "map_of datatype (col_name series) = Some kind"
    by auto
  have "map_of (summary_of df) (col_name series) = Some (column_summary series)"
    unfolding summary_of_def by (rule summary_fold_lookup [OF assms(1) assms(3)])
  with look column_kinds_agree_iff [OF kind] show ?thesis by simp
qed

theorem summary_kind_agrees_iff_witness:
  "map_of [(''order_date'', ''datetime''), (''region'', ''categorical'')] ''region''
     = map_option stype (map_of (summary_of sales_by_date) ''region'')"
proof -
  have d: "distinct (map col_name sales_by_date)"
    by (simp add: sales_by_date_def)
  have g: "get_column_datatype sales_by_date = Inr [(''order_date'', ''datetime''), (''region'', ''categorical'')]"
    by code_simp
  have m: "\<lparr>col_name = ''region'', col_dtype = Object, col_cells = [StrV ''north'', StrV ''north'']\<rparr>
             \<in> set sales_by_date"
    by (simp add: sales_by_date_def)
  have n: "\<not> name_has_date_or_time ''region''"
    by code_simp
  from summary_kind_agrees_iff [OF d g m] n show ?thesis by simp
qed

text \<open>
  The two disagree on a column \<open>order_date\<close> of two different texts: the type inference
  says \<open>datetime\<close>, the summary \<open>distinct_categorical\<close>.
\<close>

theorem summary_kind_differs_counterexample:
  "get_column_datatype sales_by_date = Inr [(''order_date'', ''datetime''), (''region'', ''categorical'')]
   \<and> map (\<lambda>(k, v). (k, stype v)) (summary_of sales_by_date)
       = [(''order_date'', ''distinct_categorical''), (''region'', ''categorical'')]"
  by code_simp

subsection \<open>The suggestion validator\<close>

lemma sug_get_suggestion:
  "sug_get (suggestion ct xv yv desc) ''chart_type'' = JStr ct"
  "sug_get (suggestion ct xv yv desc) ''x'' = xv"
  "sug_get (suggestion ct xv yv desc) ''y'' = yv"
  by (simp_all add: sug_get_def suggestion_def dict_get_def)

lemma sug_key_suggestion: "sug_key (suggestion ct xv yv desc) = (JStr ct, xv, yv)"
  by (simp add: sug_key_def sug_get_suggestion)

lemma suggestion_ok_suggestion:
  "suggestion_ok cols (suggestion ct xv yv desc) =
     (ct \<in> set [''histogram'', ''scatter'', ''bar'', ''countplot'', ''line'']
      \<and> (case xv of JStr xn \<Rightarrow> xn \<in> set cols | _ \<Rightarrow> False)
      \<and> (case yv of
           JNull \<Rightarrow> ct \<notin> set [''scatter'', ''line'']
         | JStr yn \<Rightarrow> yn \<in> set cols
         | _ \<Rightarrow> False))"
  unfolding suggestion_ok_def sug_get_suggestion by (simp only: json.case)

lemma cols_contains_True:
  "cols_contains cols v = Inr True \<Longrightarrow> (case v of JStr n \<Rightarrow> n \<in> set cols | _ \<Rightarrow> False)"
  by (cases v) (simp_all add: cols_contains_def)

lemma clean_item_body:
  "clean_item cols seen (JObj d) =
     (if py_lower (py_strip (py_str (dict_get d ''chart_type'' (JStr [])))) = []
         \<or> dict_get d ''x'' JNull = JNull then Continue
      else case cols_contains cols (dict_get d ''x'' JNull) of
        Inl e \<Rightarrow> Raise e
      | Inr x_in \<Rightarrow>
          if \<not> x_in then Continue
          else case (if dict_get d ''y'' JNull = JNull then Inr True
                     else cols_contains cols (dict_get d ''y'' JNull)) of
            Inl e \<Rightarrow> Raise e
          | Inr y_ok \<Rightarrow>
              if \<not> y_ok then Continue
              else if py_lower (py_strip (py_str (dict_get d ''chart_type'' (JStr []))))
                        \<in> set [''scatter'', ''line''] \<and> dict_get d ''y'' JNull = JNull then Continue
              else if py_lower (py_strip (py_str (dict_get d ''chart_type'' (JStr []))))
                        \<notin> set [''histogram'', ''scatter'', ''bar'', ''countplot'', ''line''] then Continue
              else if (py_lower (py_strip (py_str (dict_get d ''chart_type'' (JStr [])))),
                       dict_get d ''x'' JNull, dict_get d ''y'' JNull) \<in> set seen then Continue
              else Append (py_lower (py_strip (py_str (dict_get d ''chart_type'' (JStr [])))))
                     (dict_get d ''x'' JNull) (dict_get d ''y'' JNull)
                     (dict_get d ''description'' (JStr [])))"
  unfolding clean_item_def Let_def by (simp only: json.case)

lemma clean_item_Append:
  assumes "clean_item cols seen item = Append ct xv yv desc"
  shows "suggestion_ok cols (suggestion ct xv yv desc) \<and> (ct, xv, yv) \<notin> set seen"
proof -
  from assms obtain d where item: "item = JObj d"
    by (cases item) (simp_all add: clean_item_def)
  define ct0 where "ct0 = py_lower (py_strip (py_str (dict_get d ''chart_type'' (JStr []))))"
  define xv0 where "xv0 = dict_get d ''x'' JNull"
  define yv0 where "yv0 = dict_get d ''y'' JNull"
  define desc0 where "desc0 = dict_get d ''description'' (JStr [])"
  define five where "five = set [''histogram'', ''scatter'', ''bar'', ''countplot'', ''line'']"
  define two where "two = set [''scatter'', ''line'']"
  have body: "clean_item cols seen item =
     (if ct0 = [] \<or> xv0 = JNull then Continue
      else case cols_contains cols xv0 of
        Inl e \<Rightarrow> Raise e
      | Inr x_in \<Rightarrow>
          if \<not> x_in then Continue
          else case (if yv0 = JNull then Inr True else cols_contains cols yv0) of
            Inl e \<Rightarrow> Raise e
          | Inr y_ok \<Rightarrow>
              if \<not> y_ok then Continue
              else if ct0 \<in> two \<and> yv0 = JNull then Continue
              else if ct0 \<notin> five then Continue
              else if (ct0, xv0, yv0) \<in> set seen then Continue
              else Append ct0 xv0 yv0 desc0)"
    unfolding item clean_item_body ct0_def xv0_def yv0_def desc0_def five_def two_def ..
  from assms body have xin: "cols_contains cols xv0 = Inr True"
    by (auto split: if_splits sum.splits)
  from assms body xin have yin: "yv0 = JNull \<or> cols_contains cols yv0 = Inr True"
    by (auto split: if_splits sum.splits)
  from assms body xin yin have rest: "ct0 \<in> five" "\<not> (ct0 \<in> two \<and> yv0 = JNull)"
    "(ct0, xv0, yv0) \<notin> set seen" "ct = ct0" "xv = xv0" "yv = yv0"
    by (auto split: if_splits sum.splits)
  have xok: "case xv0 of JStr xn \<Rightarrow> xn \<in> set cols | _ \<Rightarrow> False"
    using xin by (rule cols_contains_True)
  have yok: "case yv0 of JNull \<Rightarrow> ct0 \<notin> two | JStr yn \<Rightarrow> yn \<in> set cols | _ \<Rightarrow> False"
  proof (cases "yv0 = JNull")
    case True
    with rest(2) show ?thesis by simp
  next
    case False
    with yin have "cols_contains cols yv0 = Inr True" by simp
    from cols_contains_True [OF this] False show ?thesis by (cases yv0) simp_all
  qed
  have "suggestion_ok cols (suggestion ct0 xv0 yv0 desc)"
    unfolding suggestion_ok_suggestion using rest(1) xok yok unfolding five_def two_def by blast
  with rest show ?thesis by simp
qed

lemma clean_loop_invariant:
  assumes "clean_loop cols cap items seen cleaned = Inr out"
    and "list_all (suggestion_ok cols) cleaned"
    and "distinct (map sug_key cleaned)"
    and "sug_key ` set cleaned = (\<lambda>(ct, xv, yv). (JStr ct, xv, yv)) ` set seen"
  shows "list_all (suggestion_ok cols) out \<and> distinct (map sug_key out)"
  using assms
proof (induction items arbitrary: seen cleaned)
  case Nil
  then show ?case by simp
next
  case (Cons item rest)
  show ?case
  proof (cases "clean_item cols seen item")
    case Continue
    with Cons.prems(1) have "clean_loop cols cap rest seen cleaned = Inr out" by simp
    from Cons.IH [OF this Cons.prems(2-4)] show ?thesis .
  next
    case (Raise e)
    with Cons.prems(1) show ?thesis by simp
  next
    case (Append ct xv yv desc)
    let ?s = "suggestion ct xv yv desc"
    from clean_item_Append [OF Append]
    have ok: "suggestion_ok cols ?s" and fresh: "(ct, xv, yv) \<notin> set seen" by simp_all
    have key: "sug_key ?s = (JStr ct, xv, yv)" by (rule sug_key_suggestion)
    from fresh Cons.prems(4) have new: "sug_key ?s \<notin> sug_key ` set cleaned"
      by (auto simp: key)
    have ok': "list_all (suggestion_ok cols) (cleaned @ [?s])"
      using Cons.prems(2) ok by simp
    have dist': "distinct (map sug_key (cleaned @ [?s]))"
      using Cons.prems(3) new by simp
    have seen': "sug_key ` set (cleaned @ [?s])
                 = (\<lambda>(ct, xv, yv). (JStr ct, xv, yv)) ` set ((ct, xv, yv) # seen)"
      using Cons.prems(4) key by auto
    show ?thesis
    proof (cases "case cap of None \<Rightarrow> False | Some m \<Rightarrow> length (cleaned @ [?s]) \<ge> m")
      case True
      with Cons.prems(1) Append have "out = cleaned @ [?s]" by (simp add: Let_def)
      with ok' dist' show ?thesis by simp
    next
      case False
      with Cons.prems(1) Append
      have "clean_loop cols cap rest ((ct, xv, yv) # seen) (cleaned @ [?s]) = Inr out"
        by (simp add: Let_def)
      from Cons.IH [OF this ok' dist' seen'] show ?thesis .
    qed
  qed
qed

lemma clean_and_validate_ok:
  assumes "clean_and_validate cap df raw = Inr out"
  shows "list_all (suggestion_ok (map col_name df)) out \<and> distinct (map sug_key out)"
proof (cases "\<exists>items. raw = JList items \<and> items \<noteq> []")
  case True
  then obtain items where "raw = JList items" "items \<noteq> []" by blast
  with assms have "clean_loop (map col_name df) cap items [] [] = Inr out"
    by (simp add: clean_and_validate_def py_truthy_def)
  from clean_loop_invariant [OF this] show ?thesis by simp
next
  case False
  with assms have "out = []"
    by (cases raw) (auto simp: clean_and_validate_def py_truthy_def split: if_splits)
  then show ?thesis by simp
qed

text \<open>
  The validator raises only where an \<open>x\<close> or a \<open>y\<close> is a list or a dictionary, which the
  set lookup cannot hash: on every other candidate list it returns.
\<close>

lemma clean_item_no_raise:
  assumes "axes_hashable item"
  shows "clean_item cols seen item \<noteq> Raise e"
proof (cases item)
  case (JObj d)
  with assms have hx: "hashable (dict_get d ''x'' JNull)" and hy: "hashable (dict_get d ''y'' JNull)"
    by (simp_all add: axes_hashable_def)
  from hx have "\<exists>bx. cols_contains cols (dict_get d ''x'' JNull) = Inr bx"
    by (cases "dict_get d ''x'' JNull") (auto simp: hashable_def cols_contains_def)
  then obtain bx where bx: "cols_contains cols (dict_get d ''x'' JNull) = Inr bx" ..
  from hy have "\<exists>b. cols_contains cols (dict_get d ''y'' JNull) = Inr b"
    by (cases "dict_get d ''y'' JNull") (auto simp: hashable_def cols_contains_def)
  then obtain by' where by': "cols_contains cols (dict_get d ''y'' JNull) = Inr by'" ..
  show ?thesis unfolding JObj clean_item_body bx by' by simp
qed (simp_all add: clean_item_def)

lemma clean_loop_returns:
  "list_all axes_hashable items \<Longrightarrow> \<exists>out. clean_loop cols cap items seen cleaned = Inr out"
proof (induction items arbitrary: seen cleaned)
  case Nil
  then show ?case by simp
next
  case (Cons item rest)
  then have h: "axes_hashable item" and r: "list_all axes_hashable rest" by simp_all
  show ?case
  proof (cases "clean_item cols seen item")
    case Continue
    with Cons.IH [OF r] show ?thesis by simp
  next
    case (Raise e)
    with clean_item_no_raise [OF h] show ?thesis by blast
  next
    case (Append ct xv yv desc)
    with Cons.IH [OF r] show ?thesis by (simp add: Let_def)
  qed
qed

lemma clean_and_validate_returns:
  assumes "case raw of JList items \<Rightarrow> list_all axes_hashable items | _ \<Rightarrow> True"
  shows "\<exists>out. clean_and_validate cap df raw = Inr out"
  using assms clean_loop_returns
  by (cases raw) (simp_all add: clean_and_validate_def)

text \<open>
  Claim C1. Whatever the candidate list, every suggestion that either validator returns
  has one of the five chart types, an \<open>x\<close> that is a column of the table, a \<open>y\<close> that is
  \<open>None\<close> or a column of the table and is not \<open>None\<close> on a scatter or line chart, and no
  two returned suggestions share their (chart type, x, y) triple.
\<close>

theorem validated_suggestions_well_formed:
  assumes "clean_and_validate_suggestions df raw max_per_sheet = Inr out
           \<or> manual_clean_and_validate_suggestions df raw = Inr out"
  shows "list_all (suggestion_ok (map col_name df)) out \<and> distinct (map sug_key out)"
  using assms clean_and_validate_ok
  unfolding clean_and_validate_suggestions_def manual_clean_and_validate_suggestions_def
  by blast

theorem validated_suggestions_well_formed_witness:
  "clean_and_validate_suggestions orders untidy_candidates 12
     = Inr [suggestion ''bar'' (JStr ''qty'') JNull (JStr []),
            suggestion ''scatter'' (JStr ''amount'') (JStr ''qty'') (JStr [])]
   \<and> list_all (suggestion_ok (map col_name orders))
        [suggestion ''bar'' (JStr ''qty'') JNull (JStr []),
         suggestion ''scatter'' (JStr ''amount'') (JStr ''qty'') (JStr [])]
   \<and> distinct (map sug_key
        [suggestion ''bar'' (JStr ''qty'') JNull (JStr []),
         suggestion ''scatter'' (JStr ''amount'') (JStr ''qty'') (JStr [])])"
proof -
  have run: "clean_and_validate_suggestions orders untidy_candidates 12
     = Inr [suggestion ''bar'' (JStr ''qty'') JNull (JStr []),
            suggestion ''scatter'' (JStr ''amount'') (JStr ''qty'') (JStr [])]"
    by code_simp
  from validated_suggestions_well_formed [OF disjI1, OF run] run show ?thesis by simp
qed

subsection \<open>Rule-based suggestions\<close>

lemma get_column_datatype_loop_all_Inr:
  "get_column_datatype_loop cs d = Inr d' \<Longrightarrow> c \<in> set cs \<Longrightarrow> \<exists>k. column_datatype c = Inr k"
  by (induction cs arbitrary: d) (auto split: sum.splits)

lemma get_column_datatype_items:
  assumes "distinct (map col_name df)" and "get_column_datatype df = Inr kinds"
  shows "map fst (filter (\<lambda>kv. snd kv = kind) kinds) = columns_of_kind kind df"
proof -
  from assms(2) have loop: "get_column_datatype_loop df [] = Inr kinds"
    by (simp add: get_column_datatype_def)
  from get_column_datatype_loop_items [OF loop] assms(1)
  have dt: "kinds = map (\<lambda>c. (col_name c, projr (column_datatype c))) df" by simp
  have "\<And>c. c \<in> set df \<Longrightarrow> (projr (column_datatype c) = kind) = (column_datatype c = Inr kind)"
    using get_column_datatype_loop_all_Inr [OF loop] by fastforce
  then have "filter (\<lambda>c. projr (column_datatype c) = kind) df
             = filter (\<lambda>c. column_datatype c = Inr kind) df"
    by (auto intro: filter_cong)
  then show ?thesis
    unfolding dt columns_of_kind_def by (simp add: filter_map comp_def)
qed

lemma column_suggestions_no_line:
  "column_suggestions kinds cols = Inr sugs \<Longrightarrow> filter is_line sugs = []"
proof (induction cols arbitrary: sugs)
  case Nil
  then show ?case by simp
next
  case (Cons col rest)
  then show ?case
    by (auto simp: is_line_def sug_get_suggestion split: sum.splits if_splits)
qed

lemma scatter_suggestions_no_line: "filter is_line (scatter_suggestions numerical) = []"
  by (auto simp: scatter_suggestions_def is_line_def sug_get_suggestion filter_empty_conv)

lemma line_suggestions_all_line:
  "filter is_line (line_suggestions date numerical) = line_suggestions date numerical"
  by (auto simp: line_suggestions_def is_line_def sug_get_suggestion split: list.splits)

lemma generate_manual_suggestions_lines:
  assumes "distinct (map col_name df)" and "generate_manual_suggestions df = Inr sugs"
  shows "filter is_line sugs =
           line_suggestions (columns_of_kind ''datetime'' df) (columns_of_kind ''numerical'' df)"
proof -
  from assms(2) obtain kinds manual_sug where
    dt: "get_column_datatype df = Inr kinds"
    and cs: "column_suggestions kinds (map col_name df) = Inr manual_sug"
    and sugs: "sugs = manual_sug
         @ scatter_suggestions (map fst (filter (\<lambda>kv. snd kv = ''numerical'') kinds))
         @ line_suggestions (map fst (filter (\<lambda>kv. snd kv = ''datetime'') kinds))
             (map fst (filter (\<lambda>kv. snd kv = ''numerical'') kinds))"
    by (auto simp: generate_manual_suggestions_def Let_def split: sum.splits)
  show ?thesis
    unfolding sugs get_column_datatype_items [OF assms(1) dt]
    by (simp add: column_suggestions_no_line [OF cs] scatter_suggestions_no_line
          line_suggestions_all_line)
qed

lemma orders_suggestions:
  "generate_manual_suggestions orders =
     Inr [suggestion ''histogram'' (JStr ''amount'') JNull (JStr ''Distribution of amount''),
          suggestion ''histogram'' (JStr ''qty'') JNull (JStr ''Distribution of qty''),
          suggestion ''scatter'' (JStr ''amount'') (JStr ''qty'')
            (JStr ''Relationship between amount and qty''),
          suggestion ''line'' (JStr ''order_date'') (JStr ''amount'') (JStr ''Trend of amount over date''),
          suggestion ''line'' (JStr ''order_date'') (JStr ''qty'') (JStr ''Trend of qty over date'')]"
  by code_simp

lemma orders_columns:
  "columns_of_kind ''datetime'' orders = [''order_date'']"
  "columns_of_kind ''numerical'' orders = [''amount'', ''qty'']"
  by code_simp+

text \<open>
  Claim C4. On a table with unique labels, the line proposals of the rule-based generator
  are: when exactly one column is of kind \<open>datetime\<close>, one proposal per numerical
  column, in table order, with that datetime column as \<open>x\<close> and the numerical column as
  \<open>y\<close>; and none when no column or more than one column is of kind \<open>datetime\<close>. For
  the table with the columns \<open>order_date\<close>, \<open>amount\<close> and \<open>qty\<close> the generator
  returns exactly five proposals, all different: the histograms of \<open>amount\<close> and
  \<open>qty\<close>, their scatter plot, and the two lines over \<open>order_date\<close>.
\<close>

theorem line_suggestions_iff_one_datetime:
  assumes "distinct (map col_name df)" and "generate_manual_suggestions df = Inr sugs"
  shows "filter is_line sugs =
           (case columns_of_kind ''datetime'' df of
              [d] \<Rightarrow> map (\<lambda>item. suggestion ''line'' (JStr d) (JStr item)
                          (JStr (''Trend of '' @ item @ '' over date'')))
                       (columns_of_kind ''numerical'' df)
            | _ \<Rightarrow> [])
         \<and> generate_manual_suggestions orders =
             Inr [suggestion ''histogram'' (JStr ''amount'') JNull (JStr ''Distribution of amount''),
                  suggestion ''histogram'' (JStr ''qty'') JNull (JStr ''Distribution of qty''),
                  suggestion ''scatter'' (JStr ''amount'') (JStr ''qty'')
                    (JStr ''Relationship between amount and qty''),
                  suggestion ''line'' (JStr ''order_date'') (JStr ''amount'')
                    (JStr ''Trend of amount over date''),
                  suggestion ''line'' (JStr ''order_date'') (JStr ''qty'')
                    (JStr ''Trend of qty over date'')]
         \<and> distinct (projr (generate_manual_suggestions orders))"
proof -
  have "distinct (projr (generate_manual_suggestions orders))"
    unfolding orders_suggestions by (simp add: suggestion_def)
  with generate_manual_suggestions_lines [OF assms] orders_suggestions
  show ?thesis by (simp add: line_suggestions_def)
qed

theorem line_suggestions_iff_one_datetime_witness:
  "distinct (map col_name orders)
   \<and> filter is_line (projr (generate_manual_suggestions orders)) =
       [suggestion ''line'' (JStr ''order_date'') (JStr ''amount'') (JStr ''Trend of amount over date''),
        suggestion ''line'' (JStr ''order_date'') (JStr ''qty'') (JStr ''Trend of qty over date'')]"
proof -
  have d: "distinct (map col_name orders)"
    by (simp add: orders_def)
  from line_suggestions_iff_one_datetime [OF d orders_suggestions] d
  show ?thesis by (simp add: orders_columns orders_suggestions)
qed

subsection \<open>The date coercion\<close>

lemma prepare_step:
  "(let series = (h ! a) ! i in
      if col_dtype series = Object then
        (case to_datetime E series of
           Inl e \<Rightarrow> h
         | Inr parsed \<Rightarrow> if mostly_dates series parsed then set_column h a i parsed else h)
      else h) = h[a := (h ! a)[i := prepare_column E ((h ! a) ! i)]]"
  by (auto simp: Let_def prepare_column_def set_column_def split: sum.splits)

lemma prepare_loop_unfold:
  "prepare_loop E h a (i # rest) =
     prepare_loop E (h[a := (h ! a)[i := prepare_column E ((h ! a) ! i)]]) a rest"
  unfolding prepare_step [symmetric]
  by (simp add: Let_def split: sum.splits)

lemma prepare_loop_result:
  assumes "a < length h" and "distinct ixs" and "\<forall>i \<in> set ixs. i < length (h ! a)"
  shows "prepare_loop E h a ixs =
           h[a := map (\<lambda>j. if j \<in> set ixs then prepare_column E ((h ! a) ! j) else (h ! a) ! j)
                    [0 ..< length (h ! a)]]"
  using assms
proof (induction ixs arbitrary: h)
  case Nil
  then show ?case by (simp add: map_nth)
next
  case (Cons i rest)
  let ?h = "h[a := (h ! a)[i := prepare_column E ((h ! a) ! i)]]"
  have a: "a < length ?h" using Cons.prems(1) by simp
  have d: "distinct rest" and notin: "i \<notin> set rest" using Cons.prems(2) by simp_all
  have ha: "?h ! a = (h ! a)[i := prepare_column E ((h ! a) ! i)]"
    using Cons.prems(1) by simp
  have r: "\<forall>j \<in> set rest. j < length (?h ! a)" using Cons.prems(3) ha by simp
  have i: "i < length (h ! a)" using Cons.prems(3) by simp
  have "prepare_loop E h a (i # rest) = prepare_loop E ?h a rest"
    by (rule prepare_loop_unfold)
  also have "\<dots> = ?h[a := map (\<lambda>j. if j \<in> set rest then prepare_column E ((?h ! a) ! j) else (?h ! a) ! j)
                    [0 ..< length (?h ! a)]]"
    by (rule Cons.IH [OF a d r])
  also have "\<dots> = h[a := map (\<lambda>j. if j \<in> set (i # rest) then prepare_column E ((h ! a) ! j) else (h ! a) ! j)
                    [0 ..< length (h ! a)]]"
    unfolding ha using i notin
    by (auto simp: nth_list_update intro!: arg_cong [where f = "list_update h a"] nth_equalityI)
  finally show ?case .
qed

lemma prepare_df_for_viz_result:
  assumes "df < length h"
  shows "prepare_df_for_viz E h df = (h @ [map (prepare_column E) (h ! df)], length h)"
proof -
  let ?h1 = "h @ [h ! df]"
  have n: "?h1 ! length h = h ! df" by simp
  have "prepare_loop E ?h1 (length h) [0 ..< length (?h1 ! length h)] =
          ?h1[length h := map (\<lambda>j. if j \<in> set [0 ..< length (?h1 ! length h)]
                                     then prepare_column E ((?h1 ! length h) ! j) else (?h1 ! length h) ! j)
                    [0 ..< length (?h1 ! length h)]]"
    by (rule prepare_loop_result) simp_all
  also have "\<dots> = h @ [map (prepare_column E) (h ! df)]"
    unfolding n by (auto intro!: nth_equalityI simp: nth_append)
  finally show ?thesis
    by (simp add: prepare_df_for_viz_def df_copy_def)
qed

subsection \<open>The fallback when the oracle is unavailable\<close>

lemma norm_chart_type:
  "py_lower (py_strip (py_str (JStr ''line''))) = ''line''"
  "py_lower (py_strip (py_str (JStr ''histogram''))) = ''histogram''"
  "py_lower (py_strip (py_str (JStr ''countplot''))) = ''countplot''"
  by code_simp+

lemma clean_item_suggestion:
  assumes "py_lower (py_strip (py_str (JStr ct))) = ct"
    and "ct \<in> set [''histogram'', ''scatter'', ''bar'', ''countplot'', ''line'']"
    and "xn \<in> set cols"
    and "yv = JNull \<and> ct \<notin> set [''scatter'', ''line''] \<or> (\<exists>yn. yv = JStr yn \<and> yn \<in> set cols)"
    and "(ct, JStr xn, yv) \<notin> set seen"
  shows "clean_item cols seen (suggestion ct (JStr xn) yv desc) = Append ct (JStr xn) yv desc"
proof -
  have g: "dict_get [(''chart_type'', JStr ct), (''x'', JStr xn), (''y'', yv), (''description'', desc)]
             ''chart_type'' (JStr []) = JStr ct"
    "dict_get [(''chart_type'', JStr ct), (''x'', JStr xn), (''y'', yv), (''description'', desc)]
             ''x'' JNull = JStr xn"
    "dict_get [(''chart_type'', JStr ct), (''x'', JStr xn), (''y'', yv), (''description'', desc)]
             ''y'' JNull = yv"
    "dict_get [(''chart_type'', JStr ct), (''x'', JStr xn), (''y'', yv), (''description'', desc)]
             ''description'' (JStr []) = desc"
    by (simp_all add: dict_get_def)
  from assms(2) have ne: "ct \<noteq> []" by auto
  from assms(4) have y: "(if yv = JNull then Inr True else cols_contains cols yv) = Inr True"
    by (auto simp: cols_contains_def)
  from assms(4) have sl: "\<not> (ct \<in> set [''scatter'', ''line''] \<and> yv = JNull)" by auto
  show ?thesis
    unfolding suggestion_def clean_item_body g assms(1) y
    using ne assms(2,3,5) sl by (simp add: cols_contains_def)
qed

lemma select_dtypes_hd:
  "select_dtypes ts df \<noteq> [] \<Longrightarrow> hd (select_dtypes ts df) \<in> set (map col_name df)"
proof -
  assume "select_dtypes ts df \<noteq> []"
  then have "hd (select_dtypes ts df) \<in> set (select_dtypes ts df)" by simp
  then show ?thesis by (auto simp: select_dtypes_def)
qed

lemma find_hd_filter:
  "map_option f (find P xs) = (if filter P xs = [] then None else Some (hd (map f (filter P xs))))"
  by (induction xs) (auto split: if_splits)

lemma first_of_select_dtypes:
  "first_of ts df = (if select_dtypes ts df = [] then None else Some (hd (select_dtypes ts df)))"
  unfolding select_dtypes_def first_of_def find_hd_filter by simp

lemma clean_fallback:
  "clean_and_validate_suggestions df (JList (fallback_suggestions df)) 12 = Inr (fallback_suggestions df)"
proof -
  define numeric_cols where "numeric_cols = select_dtypes [Int64, Float64] df"
  define cat_cols where "cat_cols = select_dtypes [Object, Category] df"
  define date_cols where "date_cols = select_dtypes [Datetime64, Datetime64_UTC] df"
  define cols where "cols = map col_name df"
  have n: "numeric_cols \<noteq> [] \<Longrightarrow> hd numeric_cols \<in> set cols"
    and c: "cat_cols \<noteq> [] \<Longrightarrow> hd cat_cols \<in> set cols"
    and d: "date_cols \<noteq> [] \<Longrightarrow> hd date_cols \<in> set cols"
    unfolding numeric_cols_def cat_cols_def date_cols_def cols_def
    by (rule select_dtypes_hd; assumption)+
  have line: "\<And>seen desc. date_cols \<noteq> [] \<Longrightarrow> numeric_cols \<noteq> [] \<Longrightarrow>
      (''line'', JStr (hd date_cols), JStr (hd numeric_cols)) \<notin> set seen \<Longrightarrow>
      clean_item cols seen (suggestion ''line'' (JStr (hd date_cols)) (JStr (hd numeric_cols)) desc)
        = Append ''line'' (JStr (hd date_cols)) (JStr (hd numeric_cols)) desc"
    by (rule clean_item_suggestion) (simp_all add: norm_chart_type n d)
  have hist: "\<And>seen desc. numeric_cols \<noteq> [] \<Longrightarrow>
      (''histogram'', JStr (hd numeric_cols), JNull) \<notin> set seen \<Longrightarrow>
      clean_item cols seen (suggestion ''histogram'' (JStr (hd numeric_cols)) JNull desc)
        = Append ''histogram'' (JStr (hd numeric_cols)) JNull desc"
    by (rule clean_item_suggestion) (simp_all add: norm_chart_type n)
  have cnt: "\<And>seen desc. cat_cols \<noteq> [] \<Longrightarrow>
      (''countplot'', JStr (hd cat_cols), JNull) \<notin> set seen \<Longrightarrow>
      clean_item cols seen (suggestion ''countplot'' (JStr (hd cat_cols)) JNull desc)
        = Append ''countplot'' (JStr (hd cat_cols)) JNull desc"
    by (rule clean_item_suggestion) (simp_all add: norm_chart_type c)
  show ?thesis
    unfolding clean_and_validate_suggestions_def clean_and_validate_def fallback_suggestions_def
      numeric_cols_def [symmetric] cat_cols_def [symmetric] date_cols_def [symmetric]
      cols_def [symmetric] Let_def
    by (simp add: py_truthy_def line hist cnt Let_def)
qed

lemma fallback_suggestions_described: "fallback_suggestions df = described_fallback df"
  unfolding described_fallback_def first_of_select_dtypes fallback_suggestions_def Let_def by simp

lemma fallback_short: "length (fallback_suggestions df) \<le> 2"
  by (simp add: fallback_suggestions_def Let_def)

lemma ask_llm_unavailable:
  assumes "client E = None \<or> (\<exists>create e. client E = Some create \<and> create (schema df) = Inl e)"
  shows "ask_llm_for_visualizations E df = JNull"
  using assms by (auto simp: ask_llm_for_visualizations_def)

text \<open>
  Claim C5. On a table with unique labels, when no client is configured, or the call to
  the oracle raises, the oracle-assisted path returns, without raising, the fallback
  suggestions of the prepared table: at most two, and those the specification describes.
\<close>

theorem oracle_unavailable_fallback:
  assumes "df < length h" and "distinct (map col_name (h ! df))"
    and "client E = None
         \<or> (\<exists>create e. client E = Some create
               \<and> create (schema (map (prepare_column E) (h ! df))) = Inl e)"
  shows "snd (get_viz_suggestions_for_df E h df)
           = Inr (fallback_suggestions (map (prepare_column E) (h ! df)))
         \<and> length (fallback_suggestions (map (prepare_column E) (h ! df))) \<le> 2
         \<and> fallback_suggestions (map (prepare_column E) (h ! df))
             = described_fallback (map (prepare_column E) (h ! df))"
proof -
  let ?P = "map (prepare_column E) (h ! df)"
  have asked: "ask_llm_for_visualizations E ?P = JNull"
    using assms(3) by (rule ask_llm_unavailable)
  have "snd (get_viz_suggestions_for_df E h df) = Inr (fallback_suggestions ?P)"
    unfolding get_viz_suggestions_for_df_def prepare_df_for_viz_result [OF assms(1)]
    by (simp add: asked py_truthy_def clean_fallback)
  with fallback_short fallback_suggestions_described show ?thesis by simp
qed

theorem oracle_unavailable_fallback_witness:
  "snd (get_viz_suggestions_for_df offline [orders_by_region] 0)
     = Inr [suggestion ''line'' (JStr ''order_date'') (JStr ''amount'')
              (JStr (''Trend of '' @ [CHR 0x27] @ ''amount'' @ [CHR 0x27] @ '' over time by ''
                     @ [CHR 0x27] @ ''order_date'' @ [CHR 0x27] @ ''.'')),
            suggestion ''countplot'' (JStr ''region'') JNull
              (JStr (''Category counts for '' @ [CHR 0x27] @ ''region'' @ [CHR 0x27] @ ''.''))]"
proof -
  have a: "(0::nat) < length [orders_by_region]" by simp
  have d: "distinct (map col_name ([orders_by_region] ! 0))"
    by (simp add: orders_by_region_def orders_def)
  have c: "client offline = None
           \<or> (\<exists>create e. client offline = Some create
                 \<and> create (schema (map (prepare_column offline) ([orders_by_region] ! 0))) = Inl e)"
    by (simp add: offline_def)
  have f: "described_fallback (map (prepare_column offline) ([orders_by_region] ! 0))
     = [suggestion ''line'' (JStr ''order_date'') (JStr ''amount'')
              (JStr (''Trend of '' @ [CHR 0x27] @ ''amount'' @ [CHR 0x27] @ '' over time by ''
                     @ [CHR 0x27] @ ''order_date'' @ [CHR 0x27] @ ''.'')),
            suggestion ''countplot'' (JStr ''region'') JNull
              (JStr (''Category counts for '' @ [CHR 0x27] @ ''region'' @ [CHR 0x27] @ ''.''))]"
    by code_simp
  from oracle_unavailable_fallback [OF a d c] f show ?thesis by simp
qed

subsection \<open>Parsing the oracle's response\<close>

text \<open>
  Claim C7. When the whole response is not JSON, the text from its first \<open>[\<close> to its last
  \<open>]\<close> is missing or not JSON, and the text from its first \<open>{\<close> to its last \<open>}\<close> is a
  JSON object, the parser returns that object as the one element of a list.
\<close>

theorem brace_extraction_recovers_object:
  assumes "client E = Some create" and "create (schema df) = Inr raw"
    and "json_loads E raw = None"
    and "loads_between E CHR ''['' CHR '']'' raw = None"
    and "py_find CHR ''{'' raw = Some start" and "py_rfind CHR ''}'' raw = Some end"
    and "json_loads E (py_slice raw start (end + 1)) = Some obj"
  shows "ask_llm_for_visualizations E df = JList [obj]"
  using assms
  by (simp add: ask_llm_for_visualizations_def parse_response_def loads_between_def)

theorem brace_extraction_recovers_object_witness:
  "ask_llm_for_visualizations chatty orders_by_region
     = JList [JObj [(''chart_type'', JStr ''bar''), (''x'', JStr ''region''), (''y'', JNull),
                    (''description'', JStr ''counts'')]]"
proof -
  have c: "client chatty = Some (\<lambda>schema. Inr prose_reply)"
    by (simp add: chatty_def)
  have l: "json_loads chatty = read_json"
    by (simp add: chatty_def offline_def)
  have w: "json_loads chatty prose_reply = None"
    unfolding l by code_simp
  have b: "loads_between chatty CHR ''['' CHR '']'' prose_reply = None"
    unfolding loads_between_def l by code_simp
  have s: "py_find CHR ''{'' prose_reply = Some 24"
    by code_simp
  have e: "py_rfind CHR ''}'' prose_reply = Some 88"
    by code_simp
  have o: "json_loads chatty (py_slice prose_reply 24 (88 + 1))
             = Some (JObj [(''chart_type'', JStr ''bar''), (''x'', JStr ''region''), (''y'', JNull),
                           (''description'', JStr ''counts'')])"
    unfolding l by code_simp
  from brace_extraction_recovers_object [OF c refl w b s e o] show ?thesis .
qed

subsection \<open>The chart renderer\<close>

lemma cols_contains_hashable:
  "hashable v \<Longrightarrow> \<exists>b. cols_contains cols v = Inr b"
  by (cases v) (auto simp: hashable_def cols_contains_def)

lemma unique_label_once:
  assumes "distinct (map col_name df)"
  shows "\<not> label_repeated df xv"
proof -
  have "\<And>s. distinct (map col_name df) \<Longrightarrow> length (filter (\<lambda>series. col_name series = s) df) \<le> 1"
  proof (induction df)
    case Nil
    then show ?case by simp
  next
    case (Cons c cs)
    show ?case
    proof (cases "col_name c = s")
      case True
      with Cons.prems have "s \<notin> col_name ` set cs" by simp
      then have "\<forall>series \<in> set cs. col_name series \<noteq> s" by blast
      then have "filter (\<lambda>series. col_name series = s) cs = []"
        by (simp add: filter_empty_conv)
      with True show ?thesis by simp
    next
      case False
      with Cons show ?thesis by simp
    qed
  qed
  with assms show ?thesis
    by (cases xv) (simp_all add: label_repeated_def not_less)
qed

lemma generate_chart_absent:
  assumes "hashable xv" and "hashable yv" and "\<not> columns_present (h ! df) xv yv"
  shows "generate_chart E (h, figs) df ct xv yv = ((h, figs), Inr None)"
proof -
  from cols_contains_hashable [OF assms(1)]
  obtain bx where bx: "cols_contains (map col_name (h ! df)) xv = Inr bx" by blast
  from cols_contains_hashable [OF assms(2)]
  obtain b where b: "cols_contains (map col_name (h ! df)) yv = Inr b" by blast
  from assms(3) have "\<not> bx \<or> (yv \<noteq> JNull \<and> \<not> b)"
    by (auto simp: columns_present_def bx b)
  then show ?thesis
    unfolding generate_chart_def by (auto simp: bx b Let_def)
qed

lemma generate_chart_present:
  assumes "columns_present (h ! df) xv yv" and "\<not> label_repeated (h ! df) xv"
  shows "generate_chart E (h, figs) df ct xv yv =
           (case plt_figure E of
              Some e \<Rightarrow> ((h, figs), Inl e)
            | None \<Rightarrow>
                (case try_block E h df ct xv yv of
                   (h1, closed, Inr img) \<Rightarrow> ((h1, if closed then figs else figs + 1), Inr img)
                 | (h1, closed, Inl e) \<Rightarrow>
                     (case plt_close_on_error E of
                        Some e' \<Rightarrow> ((h1, figs + 1), Inl e')
                      | None \<Rightarrow> ((h1, figs), Inr None))))"
  using assms unfolding generate_chart_def columns_present_def by (auto simp: Let_def)

lemma generate_chart_repeated:
  assumes "columns_present (h ! df) xv yv" and "label_repeated (h ! df) xv"
  shows "generate_chart E (h, figs) df ct xv yv = ((h, figs), Inl AttributeError)"
  using assms unfolding generate_chart_def columns_present_def by (auto simp: Let_def)

lemma generate_chart_returns:
  assumes "distinct (map col_name (h ! df))"
    and "plt_figure E = None" and "plt_close_on_error E = None"
    and "hashable xv" and "hashable yv"
  shows "\<exists>img. snd (generate_chart E (h, figs) df ct xv yv) = Inr img"
proof (cases "columns_present (h ! df) xv yv")
  case True
  obtain h1 closed res where t: "try_block E h df ct xv yv = (h1, closed, res)"
    by (cases "try_block E h df ct xv yv") auto
  show ?thesis
    unfolding generate_chart_present [OF True unique_label_once [OF assms(1)]] assms(2,3) t
    by (cases res) simp_all
next
  case False
  from generate_chart_absent [OF assms(4,5) False] show ?thesis by simp
qed

lemma generate_chart_caught:
  assumes "distinct (map col_name (h ! df))"
    and "plt_figure E = None" and "plt_close_on_error E = None"
    and "columns_present (h ! df) xv yv"
    and "snd (snd (try_block E h df ct xv yv)) = Inl e"
  shows "generate_chart E (h, figs) df ct xv yv = ((fst (try_block E h df ct xv yv), figs), Inr None)"
proof -
  obtain h1 closed res where t: "try_block E h df ct xv yv = (h1, closed, res)"
    by (cases "try_block E h df ct xv yv") auto
  with assms(5) have "res = Inl e" by simp
  then show ?thesis
    unfolding generate_chart_present [OF assms(4) unique_label_once [OF assms(1)]] assms(2,3) t
    by simp
qed

text \<open>
  What the \<open>try\<close> block does achieve. On a table with unique labels, with \<open>x\<close> and
  \<open>y\<close> strings or \<open>None\<close>, and provided \<open>plt.figure\<close> before the block and
  \<open>plt.close\<close> inside the handler do not raise, the renderer returns an encoded image
  or \<open>None\<close>; and whenever a call inside the block raises, it returns \<open>None\<close> with
  the figure closed, so that as many figures are open as before.
\<close>

lemma generate_chart_catches:
  assumes "distinct (map col_name (h ! df))"
    and "plt_figure E = None" and "plt_close_on_error E = None"
    and "hashable xv" and "hashable yv"
  shows "(\<exists>img. snd (generate_chart E (h, figs) df ct xv yv) = Inr img)
         \<and> (columns_present (h ! df) xv yv \<and> snd (snd (try_block E h df ct xv yv)) = Inl e \<longrightarrow>
              generate_chart E (h, figs) df ct xv yv
                = ((fst (try_block E h df ct xv yv), figs), Inr None))"
  using generate_chart_returns [OF assms] generate_chart_caught [OF assms(1,2,3)] by blast

lemma generate_chart_catches_dry_pen:
  "try_block dry_pen [orders_by_region] 0 (JStr ''bar'') (JStr ''region'') JNull
     = ([orders_by_region], False, Inl BackendError)
   \<and> generate_chart dry_pen ([orders_by_region], 0) 0 (JStr ''bar'') (JStr ''region'') JNull
     = (([orders_by_region], 0), Inr None)"
proof -
  have d: "distinct (map col_name ([orders_by_region] ! 0))"
    by (simp add: orders_by_region_def orders_def)
  have f: "plt_figure dry_pen = None" and c: "plt_close_on_error dry_pen = None"
    by (simp_all add: dry_pen_def offline_def)
  have hx: "hashable (JStr ''region'')" and hy: "hashable JNull"
    by (simp_all add: hashable_def)
  have p: "columns_present ([orders_by_region] ! 0) (JStr ''region'') JNull"
    by code_simp
  have t: "try_block dry_pen [orders_by_region] 0 (JStr ''bar'') (JStr ''region'') JNull
             = ([orders_by_region], False, Inl BackendError)"
    by code_simp
  from generate_chart_catches [OF d f c hx hy, of 0 "JStr ''bar''" BackendError] p t
  show ?thesis by simp
qed


subsection \<open>The coordinators and the cache\<close>

lemma executor_map_length:
  "executor_map f ts = Inr rs \<Longrightarrow> length rs = length ts"
  by (induction ts arbitrary: rs) (auto split: sum.splits)

lemma update_nonempty: "AList.update k v al \<noteq> []"
  by (cases al) auto

lemma collect_results_nonempty:
  "collect_results E rs acc = Inr final \<Longrightarrow> rs \<noteq> [] \<or> acc \<noteq> [] \<Longrightarrow> final \<noteq> []"
proof (induction rs arbitrary: acc)
  case Nil
  then show ?case by simp
next
  case (Cons r rs)
  obtain sheet_name ct xv yv desc img where r: "r = (sheet_name, ct, xv, yv, desc, img)"
    by (cases r) auto
  from Cons.prems(1) obtain v where
    "collect_results E rs (AList.update sheet_name
        ((case map_of acc sheet_name of None \<Rightarrow> [] | Some vs \<Rightarrow> vs) @ [v]) acc) = Inr final"
    unfolding r by (auto split: sum.splits)
  from Cons.IH [OF this] show ?case by (simp add: update_nonempty)
qed

lemma compute_all_sheets_Inr:
  assumes "compute_all_sheets mode suggest E w session_id user_filters = (w', Inr r)"
  shows "r \<noteq> [] \<and> (\<exists>h1. w' = w\<lparr>heap := h1, viz := store_visualizations (viz w) session_id r mode\<rparr>)"
proof -
  from assms obtain sheet_dfs where s: "EXCEL_CACHE w session_id = Some sheet_dfs" "sheet_dfs \<noteq> []"
    by (auto simp: compute_all_sheets_def split: option.splits if_splits)
  obtain h1 bt where b: "build_tasks suggest E user_filters (heap w) sheet_dfs = (h1, bt)"
    by (cases "build_tasks suggest E user_filters (heap w) sheet_dfs") auto
  from assms s b obtain tasks where t: "bt = Inr tasks" "tasks \<noteq> []"
    by (cases bt) (auto simp: compute_all_sheets_def call_store_visualizations_def split: if_splits)
  from assms s b t obtain results where
    e: "executor_map (render_chart_process E h1) tasks = Inr results"
    by (cases "executor_map (render_chart_process E h1) tasks")
       (auto simp: compute_all_sheets_def)
  from assms s b t e have c: "collect_results E results [] = Inr r"
    and w': "w' = w\<lparr>heap := h1, viz := store_visualizations (viz w) session_id r mode\<rparr>"
    by (auto simp: compute_all_sheets_def call_store_visualizations_def split: sum.splits)
  from executor_map_length [OF e] t(2) have "results \<noteq> []" by auto
  with collect_results_nonempty [OF c] w' show ?thesis by blast
qed

lemma cached_after_store:
  assumes "mode = ''manual'' \<or> mode = ''ai''"
  shows "get_cached_visualizations (store_visualizations c session_id r mode) session_id mode = Some r"
  using assms by (auto simp: get_cached_visualizations_def store_visualizations_def)

lemma all_sheets_second_call:
  assumes "mode = ''manual'' \<or> mode = ''ai''"
    and "all_sheets mode suggest E w session_id user_filters = (w', Inr r)"
  shows "all_sheets mode suggest' E' w' session_id user_filters' = (w', Inr r)"
proof (cases "\<exists>cached. get_cached_visualizations (viz w) session_id mode = Some cached \<and> cached \<noteq> []")
  case True
  then obtain cached where c: "get_cached_visualizations (viz w) session_id mode = Some cached"
    "cached \<noteq> []" by blast
  with assms(2) have "w' = w" "r = cached" by (simp_all add: all_sheets_def)
  with c show ?thesis by (simp add: all_sheets_def)
next
  case False
  with assms(2) have "compute_all_sheets mode suggest E w session_id user_filters = (w', Inr r)"
    by (auto simp: all_sheets_def split: option.splits if_splits)
  from compute_all_sheets_Inr [OF this] obtain h1 where
    r: "r \<noteq> []" and w': "w' = w\<lparr>heap := h1, viz := store_visualizations (viz w) session_id r mode\<rparr>"
    by blast
  have "get_cached_visualizations (viz w') session_id mode = Some r"
    unfolding w' using cached_after_store [OF assms(1)] by simp
  with r show ?thesis by (simp add: all_sheets_def)
qed

lemma zero_tasks_raise:
  assumes "get_cached_visualizations (viz w) session_id mode = None
           \<or> get_cached_visualizations (viz w) session_id mode = Some []"
    and "EXCEL_CACHE w session_id = Some sheet_dfs" and "sheet_dfs \<noteq> []"
    and "build_tasks suggest E user_filters (heap w) sheet_dfs = (h1, Inr [])"
  shows "all_sheets mode suggest E w session_id user_filters = (w\<lparr>heap := h1\<rparr>, Inl TypeError)"
  using assms
  by (auto simp: all_sheets_def compute_all_sheets_def call_store_visualizations_def)

lemma blank_tasks:
  "build_tasks get_viz_suggestions_for_df offline None (heap blank_session) [(''Sheet1'', 0)]
     = ([[], [], []], Inr [])"
  "build_tasks manual_get_viz_suggestions_for_df offline None (heap blank_session) [(''Sheet1'', 0)]
     = ([[], [], []], Inr [])"
  unfolding blank_session_def by (simp, code_simp)+

text \<open>
  Claim C2 does not hold of the code. Where no sheet yields a task, both coordinators call
  \<open>store_visualizations(session_id, {})\<close> without its \<open>mode\<close>, and the call raises
  \<open>TypeError\<close>: at the session whose only sheet is blank, each of them ends with that
  exception, and the render cache is as it was before the call.
\<close>

theorem zero_tasks_raise_type_error:
  "suggest_visualizations_for_all_sheets offline blank_session ''s2'' None
     = (blank_session\<lparr>heap := [[], [], []]\<rparr>, Inl TypeError)
   \<and> manual_suggest_visualizations_for_all_sheets offline blank_session ''s2'' None
     = (blank_session\<lparr>heap := [[], [], []]\<rparr>, Inl TypeError)"
proof -
  have c: "\<And>mode. get_cached_visualizations (viz blank_session) ''s2'' mode = None
           \<or> get_cached_visualizations (viz blank_session) ''s2'' mode = Some []"
    by (simp add: blank_session_def empty_cache_def get_cached_visualizations_def)
  have e: "EXCEL_CACHE blank_session ''s2'' = Some [(''Sheet1'', 0)]"
    by (simp add: blank_session_def)
  have n: "[(''Sheet1'', 0::nat)] \<noteq> []" by simp
  show ?thesis
    unfolding suggest_visualizations_for_all_sheets_def manual_suggest_visualizations_for_all_sheets_def
    using zero_tasks_raise [OF c e n blank_tasks(1)] zero_tasks_raise [OF c e n blank_tasks(2)]
    by simp
qed

text \<open>
  Claim C3. If a call of either \<open>suggest_visualizations_for_all_sheets\<close> returns a result,
  then a second call for the same session in the state the first one left returns the
  same result and leaves the state as it is, whatever the oracle, the parsers, the backend
  and the filters of the second call are: it reads nothing but the cache.
\<close>

theorem second_call_is_cache_hit:
  assumes "suggest_visualizations_for_all_sheets E w session_id user_filters = (w', Inr r)
           \<or> manual_suggest_visualizations_for_all_sheets E w session_id user_filters = (w', Inr r)"
  shows "(suggest_visualizations_for_all_sheets E w session_id user_filters = (w', Inr r) \<longrightarrow>
            suggest_visualizations_for_all_sheets E' w' session_id user_filters' = (w', Inr r))
         \<and> (manual_suggest_visualizations_for_all_sheets E w session_id user_filters = (w', Inr r) \<longrightarrow>
            manual_suggest_visualizations_for_all_sheets E' w' session_id user_filters' = (w', Inr r))"
  unfolding suggest_visualizations_for_all_sheets_def manual_suggest_visualizations_for_all_sheets_def
  using all_sheets_second_call by blast

theorem second_call_is_cache_hit_witness:
  "snd (manual_suggest_visualizations_for_all_sheets offline region_session ''s1'' None)
     = Inr [(''Sheet1'',
             [\<lparr>viz_chart_type = ''bar'', viz_x = Some ''region'', viz_y = None, viz_hue = None,
               viz_description = ''Count of region'', viz_image_base64 = Some ''UE5H''\<rparr>])]
   \<and> manual_suggest_visualizations_for_all_sheets dry_pen
        (fst (manual_suggest_visualizations_for_all_sheets offline region_session ''s1'' None)) ''s1''
        (Some [(''Sheet1'', [''line''])])
     = (fst (manual_suggest_visualizations_for_all_sheets offline region_session ''s1'' None),
        Inr [(''Sheet1'',
              [\<lparr>viz_chart_type = ''bar'', viz_x = Some ''region'', viz_y = None, viz_hue = None,
                viz_description = ''Count of region'', viz_image_base64 = Some ''UE5H''\<rparr>])])"
proof -
  let ?first = "manual_suggest_visualizations_for_all_sheets offline region_session ''s1'' None"
  let ?r = "[(''Sheet1'',
             [\<lparr>viz_chart_type = ''bar'', viz_x = Some ''region'', viz_y = None, viz_hue = None,
               viz_description = ''Count of region'', viz_image_base64 = Some ''UE5H''\<rparr>])]"
  have s: "snd ?first = Inr ?r"
    by code_simp
  then have f: "?first = (fst ?first, Inr ?r)"
    by (simp add: prod_eq_iff)
  from second_call_is_cache_hit [OF disjI2, OF f, of dry_pen "Some [(''Sheet1'', [''line''])]"] f s
  show ?thesis by blast
qed

subsection \<open>The stored tables\<close>

lemma grows_iff: "grows h h' \<longleftrightarrow> (\<exists>t. h' = h @ t)"
  unfolding grows_def
proof
  assume "take (length h) h' = h"
  then have "h' = h @ drop (length h) h'" by (metis append_take_drop_id)
  then show "\<exists>t. h' = h @ t" ..
next
  assume "\<exists>t. h' = h @ t"
  then show "take (length h) h' = h" by auto
qed

lemma grows_refl: "grows h h"
  by (simp add: grows_def)

lemma grows_trans: "grows h h1 \<Longrightarrow> grows h1 h2 \<Longrightarrow> grows h h2"
  unfolding grows_iff by auto

lemma grows_nth: "grows h h' \<Longrightarrow> a < length h \<Longrightarrow> h' ! a = h ! a"
  unfolding grows_iff by (auto simp: nth_append)

lemma prepare_loop_only_there: "\<exists>d. prepare_loop E h a ixs = h[a := d]"
proof (induction ixs arbitrary: h)
  case Nil
  have "prepare_loop E h a [] = h[a := h ! a]" by simp
  then show ?case ..
next
  case (Cons i rest)
  let ?h = "h[a := (h ! a)[i := prepare_column E ((h ! a) ! i)]]"
  from Cons.IH [of ?h] obtain d where "prepare_loop E ?h a rest = ?h[a := d]" ..
  then have "prepare_loop E h a (i # rest) = h[a := d]"
    by (simp only: prepare_loop_unfold list_update_overwrite)
  then show ?case ..
qed

lemma prepare_df_for_viz_fresh: "\<exists>d. prepare_df_for_viz E h df = (h @ [d], length h)"
proof -
  from prepare_loop_only_there [of E "h @ [h ! df]" "length h"]
  obtain d where "prepare_loop E (h @ [h ! df]) (length h) [0 ..< length ((h @ [h ! df]) ! length h)]
                  = (h @ [h ! df])[length h := d]" ..
  then have "prepare_df_for_viz E h df = (h @ [d], length h)"
    by (simp add: prepare_df_for_viz_def df_copy_def)
  then show ?thesis ..
qed

lemma prepare_df_for_viz_grows: "grows h (fst (prepare_df_for_viz E h df))"
  using prepare_df_for_viz_fresh [of E h df] by (auto simp: grows_iff)

lemma get_viz_suggestions_for_df_grows: "grows h (fst (get_viz_suggestions_for_df E h df))"
  using prepare_df_for_viz_grows [of h E df]
  by (simp add: get_viz_suggestions_for_df_def split_beta Let_def)

lemma manual_get_viz_suggestions_for_df_grows: "grows h (fst (manual_get_viz_suggestions_for_df E h df))"
  using prepare_df_for_viz_grows [of h E df]
  by (simp add: manual_get_viz_suggestions_for_df_def split_beta Let_def)

lemma plot_chart_grows: "grows h (fst (plot_chart E h df ct xv yv))"
proof -
  have c: "\<And>i c. grows h (set_column (h @ [h ! df]) (length h) i c)"
    by (simp add: set_column_def grows_def)
  show ?thesis
    unfolding plot_chart_def
    by (auto simp: grows_refl c df_copy_def Let_def split: sum.splits)
qed

lemma try_block_grows: "grows h (fst (try_block E h df ct xv yv))"
  using plot_chart_grows [of h E df ct xv yv]
  by (auto simp: try_block_def split: prod.splits sum.splits option.splits)

lemma generate_chart_grows: "grows h (fst (fst (generate_chart E (h, figs) df ct xv yv)))"
  using try_block_grows [of h E df ct xv yv]
  by (auto simp: generate_chart_def Let_def grows_refl split: prod.splits sum.splits option.splits if_splits)

lemma render_suggestions_grows: "grows h (fst (fst (render_suggestions E (h, figs) df items)))"
proof (induction items arbitrary: h figs)
  case Nil
  then show ?case by (simp add: grows_refl)
next
  case (Cons item rest)
  obtain h1 figs1 res where g: "generate_chart E (h, figs) df (sug_get item ''chart_type'')
      (sug_get item ''x'') (sug_get item ''y'') = ((h1, figs1), res)"
    by (metis surj_pair)
  from generate_chart_grows [of h E figs df "sug_get item ''chart_type''" "sug_get item ''x''" "sug_get item ''y''"]
  have g1: "grows h h1" by (simp add: g)
  from Cons.IH [of h1 figs1] have "grows h (fst (fst (render_suggestions E (h1, figs1) df rest)))"
    using g1 grows_trans by blast
  with g1 show ?case
    by (auto simp: g split: sum.splits prod.splits)
qed

lemma build_tasks_grows:
  assumes "\<And>h df. grows h (fst (suggest E h df))"
  shows "grows h (fst (build_tasks suggest E user_filters h sheets))"
proof (induction sheets arbitrary: h)
  case Nil
  then show ?case by (simp add: grows_refl)
next
  case (Cons sheet rest)
  obtain sheet_name df_raw where s: "sheet = (sheet_name, df_raw)" by (cases sheet) auto
  obtain h1 df where p: "prepare_df_for_viz E h df_raw = (h1, df)" by (metis surj_pair)
  obtain h2 res where g: "suggest E h1 df = (h2, res)" by (metis surj_pair)
  from prepare_df_for_viz_grows [of h E df_raw] p have a: "grows h h1" by simp
  from assms [of h1 df] g have b: "grows h1 h2" by simp
  from a b have c: "grows h h2" by (rule grows_trans)
  from Cons.IH [of h2] c have "grows h (fst (build_tasks suggest E user_filters h2 rest))"
    using grows_trans by blast
  with c show ?case
    by (auto simp: s p g split: sum.splits prod.splits)
qed

lemma suggest_visualizations_kept: "tables_kept w (fst (suggest_visualizations E w session_id sheet_name))"
proof (cases "get_sheet_df w session_id sheet_name")
  case (Inl e)
  then show ?thesis by (simp add: suggest_visualizations_def tables_kept_def grows_refl)
next
  case (Inr df_raw)
  obtain h1 df where p: "prepare_df_for_viz E (heap w) df_raw = (h1, df)" by (metis surj_pair)
  obtain h2 res where g: "get_viz_suggestions_for_df E h1 df = (h2, res)" by (metis surj_pair)
  from prepare_df_for_viz_grows [of "heap w" E df_raw] p have a: "grows (heap w) h1" by simp
  from get_viz_suggestions_for_df_grows [of h1 E df] g have "grows h1 h2" by simp
  with a have c: "grows (heap w) h2" by (rule grows_trans)
  show ?thesis
  proof (cases res)
    case (Inl e)
    with c show ?thesis
      by (simp add: suggest_visualizations_def Inr p g tables_kept_def)
  next
    case (Inr suggestions)
    obtain h3 figs out where r: "render_suggestions E (h2, figures w) df suggestions = ((h3, figs), out)"
      by (metis surj_pair)
    from render_suggestions_grows [of h2 E "figures w" df suggestions] r have "grows h2 h3" by simp
    with c have "grows (heap w) h3" by (rule grows_trans)
    then show ?thesis
      by (simp add: suggest_visualizations_def \<open>get_sheet_df w session_id sheet_name = Inr df_raw\<close>
            p g Inr r tables_kept_def)
  qed
qed

lemma compute_all_sheets_kept:
  assumes "\<And>h df. grows h (fst (suggest E h df))"
  shows "tables_kept w (fst (compute_all_sheets mode suggest E w session_id user_filters))"
proof (cases "EXCEL_CACHE w session_id")
  case None
  then show ?thesis by (simp add: compute_all_sheets_def tables_kept_def grows_refl)
next
  case (Some sheet_dfs)
  obtain h1 bt where b: "build_tasks suggest E user_filters (heap w) sheet_dfs = (h1, bt)"
    by (metis surj_pair)
  have "grows (heap w) (fst (build_tasks suggest E user_filters (heap w) sheet_dfs))"
    by (rule build_tasks_grows) (rule assms)
  with b have g: "grows (heap w) h1" by simp
  show ?thesis
    using g
    by (simp add: compute_all_sheets_def Some b tables_kept_def grows_refl
          call_store_visualizations_def split: sum.splits)
qed

lemma all_sheets_kept:
  assumes "\<And>h df. grows h (fst (suggest E h df))"
  shows "tables_kept w (fst (all_sheets mode suggest E w session_id user_filters))"
proof -
  have "tables_kept w (fst (compute_all_sheets mode suggest E w session_id user_filters))"
    by (rule compute_all_sheets_kept) (rule assms)
  then show ?thesis
    by (auto simp: all_sheets_def tables_kept_def grows_refl split: option.splits)
qed

lemma tables_kept_stored:
  assumes "tables_kept w w'" and "stored_table w session_id sheet_name = Some t"
  shows "stored_table w' session_id sheet_name = Some t"
proof -
  from assms(2) obtain df where df: "get_sheet_df w session_id sheet_name = Inr df"
    "df < length (heap w)" "heap w ! df = t"
    by (auto simp: stored_table_def split: sum.splits if_splits)
  from assms(1) have e: "EXCEL_CACHE w' = EXCEL_CACHE w" and g: "grows (heap w) (heap w')"
    by (simp_all add: tables_kept_def)
  from e df(1) have "get_sheet_df w' session_id sheet_name = Inr df"
    by (simp add: get_sheet_df_def)
  moreover from g df(2) have "df < length (heap w')" by (auto simp: grows_iff)
  moreover from grows_nth [OF g df(2)] df(3) have "heap w' ! df = t" by simp
  ultimately show ?thesis by (simp add: stored_table_def)
qed

lemma prepare_column_changes:
  "prepare_column E series \<noteq> series \<Longrightarrow>
     col_dtype series = Object \<and> (\<exists>parsed. to_datetime E series = Inr parsed \<and> mostly_dates series parsed)"
  by (auto simp: prepare_column_def split: if_splits sum.splits)

text \<open>
  Claim C8. The date coercion allocates a copy and writes only there: every table
  that was in memory before the call is unchanged after it, the copy holds the coerced
  columns, and a column of the copy differs from the original only if it is free-form
  and at least 70 percent of its values parse as timestamps. The same holds for a
  rendering call, and after a call of \<open>suggest_visualizations\<close> or of either
  \<open>suggest_visualizations_for_all_sheets\<close>, whatever its outcome, every sheet of every
  session holds the table it held before.
\<close>

theorem stored_tables_unchanged:
  "grows h (fst (prepare_df_for_viz E h df))
   \<and> (df < length h \<longrightarrow>
        prepare_df_for_viz E h df = (h @ [map (prepare_column E) (h ! df)], length h))
   \<and> (prepare_column E series \<noteq> series \<longrightarrow>
        col_dtype series = Object
        \<and> (\<exists>parsed. to_datetime E series = Inr parsed \<and> mostly_dates series parsed))
   \<and> grows h (fst (fst (generate_chart E (h, figs) df ct xv yv)))
   \<and> (stored_table w sid sheet = Some t \<longrightarrow>
        stored_table (fst (suggest_visualizations E w session_id sheet_name)) sid sheet = Some t
        \<and> stored_table (fst (suggest_visualizations_for_all_sheets E w session_id user_filters)) sid sheet
            = Some t
        \<and> stored_table (fst (manual_suggest_visualizations_for_all_sheets E w session_id user_filters))
              sid sheet = Some t)"
proof -
  have ai: "tables_kept w (fst (suggest_visualizations_for_all_sheets E w session_id user_filters))"
    unfolding suggest_visualizations_for_all_sheets_def
    by (rule all_sheets_kept) (rule get_viz_suggestions_for_df_grows)
  have manual: "tables_kept w (fst (manual_suggest_visualizations_for_all_sheets E w session_id user_filters))"
    unfolding manual_suggest_visualizations_for_all_sheets_def
    by (rule all_sheets_kept) (rule manual_get_viz_suggestions_for_df_grows)
  have one: "tables_kept w (fst (suggest_visualizations E w session_id sheet_name))"
    by (rule suggest_visualizations_kept)
  show ?thesis
    using prepare_df_for_viz_grows [of h E df] prepare_df_for_viz_result [of df h E]
      prepare_column_changes [of E series] generate_chart_grows [of h E figs df ct xv yv]
      tables_kept_stored [OF one] tables_kept_stored [OF ai] tables_kept_stored [OF manual]
    by blast
qed

theorem stored_tables_unchanged_witness:
  "stored_table orders_session ''s1'' ''Sheet1'' = Some orders_by_region
   \<and> stored_table (fst (suggest_visualizations offline orders_session ''s1'' ''Sheet1'')) ''s1'' ''Sheet1''
       = Some orders_by_region
   \<and> stored_table (fst (manual_suggest_visualizations_for_all_sheets offline orders_session ''s1'' None))
        ''s1'' ''Sheet1'' = Some orders_by_region
   \<and> map col_dtype (fst (prepare_df_for_viz offline [orders_by_region] 0) ! 0)
       = [Object, Float64, Int64, Object]
   \<and> map col_dtype (fst (prepare_df_for_viz offline [orders_by_region] 0) ! 1)
       = [Datetime64, Float64, Int64, Object]"
proof -
  have s: "stored_table orders_session ''s1'' ''Sheet1'' = Some orders_by_region"
    by (simp add: stored_table_def get_sheet_df_def orders_session_def)
  have p: "map col_dtype (fst (prepare_df_for_viz offline [orders_by_region] 0) ! 0)
             = [Object, Float64, Int64, Object]
           \<and> map col_dtype (fst (prepare_df_for_viz offline [orders_by_region] 0) ! 1)
             = [Datetime64, Float64, Int64, Object]"
    by code_simp
  from stored_tables_unchanged [where w = orders_session and sid = "''s1''" and sheet = "''Sheet1''"
      and t = orders_by_region and E = offline and session_id = "''s1''" and sheet_name = "''Sheet1''"
      and user_filters = None] s p
  show ?thesis by blast
qed

end
